theory Spec2Isabelle
  imports Complex_Main "HOL-Library.Word" "HOL-Library.Sublist"
begin

section \<open>JavaScript numbers\<close>

text \<open>
  A JavaScript number is an IEEE 754 double. A finite double is represented by the
  real number it stands for, and \<open>NaN\<close> is what arithmetic on \<open>undefined\<close> (an
  out-of-range buffer read, a missing table entry) and \<open>0/0\<close> produce. Every
  arithmetic operation of the source is the exact operation followed by
  \<open>binary64\<close>, the rounding to the nearest double: 53 significant bits, a tie to
  the even significand, and the fixed spacing \<open>2^-1074\<close> below \<open>2^-1022\<close>. The
  infinities are left out: every division of the modelled code is guarded against
  a zero divisor or is \<open>0/0\<close>, and all magnitudes stay far below \<open>2^1024\<close>.
\<close>

datatype jsnum = Num real | NaN

definition round_even :: "real \<Rightarrow> int" where
  "round_even q =
     (let f = \<lfloor>q\<rfloor>
      in if q - of_int f < 1 / 2 then f
         else if q - of_int f > 1 / 2 then f + 1
         else if even f then f else f + 1)"

definition binary64 :: "real \<Rightarrow> real" where
  "binary64 x =
     (if x = 0 then 0
      else (let e = max \<lfloor>log 2 \<bar>x\<bar>\<rfloor> (- 1022); u = 2 powi (e - 52)
            in of_int (round_even (x / u)) * u))"

definition js_plus :: "real \<Rightarrow> real \<Rightarrow> real" where
  "js_plus x y = binary64 (x + y)"

definition js_minus :: "real \<Rightarrow> real \<Rightarrow> real" where
  "js_minus x y = binary64 (x - y)"

definition js_times :: "real \<Rightarrow> real \<Rightarrow> real" where
  "js_times x y = binary64 (x * y)"

text \<open>The quotient of two finite doubles, for a divisor that is not zero.\<close>

definition js_divide :: "real \<Rightarrow> real \<Rightarrow> real" where
  "js_divide x y = binary64 (x / y)"

text \<open>Relational operators: every comparison with \<open>NaN\<close> is false.\<close>

fun js_lt :: "jsnum \<Rightarrow> real \<Rightarrow> bool" where
  "js_lt (Num x) y = (x < y)"
| "js_lt NaN y = False"

fun js_gt :: "jsnum \<Rightarrow> real \<Rightarrow> bool" where
  "js_gt (Num x) y = (x > y)"
| "js_gt NaN y = False"

text \<open>
  \<open>x.toFixed(d)\<close> for a finite \<open>x\<close>, as the decimal it prints: the multiple of \<open>10^-d\<close>
  nearest to the exact value of \<open>x\<close>, a tie going away from zero (\<open>toFixed\<close> rounds the
  magnitude, taking the larger candidate on a tie, and prefixes the sign).
  \<open>parseFloat\<close> of that text is the double nearest to the decimal.
\<close>

definition toFixed :: "nat \<Rightarrow> real \<Rightarrow> real" where
  "toFixed d x =
     (if x < 0 then - (of_int \<lfloor>(- x) * 10 ^ d + 1 / 2\<rfloor> / 10 ^ d)
      else of_int \<lfloor>x * 10 ^ d + 1 / 2\<rfloor> / 10 ^ d)"

definition parseFloat_toFixed :: "nat \<Rightarrow> real \<Rightarrow> real" where
  "parseFloat_toFixed d x = binary64 (toFixed d x)"

section \<open>NDVIAnalysisService\<close>

record thresholds =
  low :: real
  normal :: real
  high :: real

text \<open>
  A band after decoding: the metadata's width and height and the raw buffer. The
  buffer holds one byte per sample, as many samples per pixel as the image has
  channels; nothing relates its length to the width and the height.
\<close>

record raster =
  width :: nat
  height :: nat
  data :: "8 word list"

text \<open>Reading \<open>buf[i]\<close> as a number: a byte, or \<open>undefined\<close> (hence \<open>NaN\<close>) out of range.\<close>

definition byte_at :: "8 word list \<Rightarrow> nat \<Rightarrow> jsnum" where
  "byte_at buf i = (if i < length buf then Num (real (unat (buf ! i))) else NaN)"

text \<open>One iteration of the loop of \<open>_computeNDVIPixels\<close>.\<close>

definition ndvi_pixel :: "jsnum \<Rightarrow> jsnum \<Rightarrow> jsnum" where
  "ndvi_pixel nirByte redByte =
     (case (nirByte, redByte) of
        (Num a, Num b) \<Rightarrow>
          (let nir = js_divide a 255; red = js_divide b 255; denominator = js_plus nir red
           in Num (if denominator \<noteq> 0 then js_divide (js_minus nir red) denominator else 0))
      | _ \<Rightarrow> NaN)"

definition computeNDVIPixels :: "8 word list \<Rightarrow> 8 word list \<Rightarrow> jsnum list" where
  "computeNDVIPixels nirData redData =
     map (\<lambda>i. ndvi_pixel (byte_at nirData i) (byte_at redData i)) [0 ..< length nirData]"

text \<open>The errors \<open>calculateNDVI\<close> throws.\<close>

datatype error = DimensionMismatch | RangeError

text \<open>
  The object returned by \<open>_calculateStatistics\<close>; its fields \<open>min\<close> and \<open>max\<close> are
  \<open>min_ndvi\<close> and \<open>max_ndvi\<close> here. Without a valid value the source returns neither
  \<open>validPixels\<close> nor \<open>totalPixels\<close>.
\<close>

record statistics =
  average :: real
  min_ndvi :: real
  max_ndvi :: real
  std :: real
  validPixels :: "nat option"
  totalPixels :: "nat option"

text \<open>The filter \<open>!isNaN(val) && val >= -1 && val <= 1\<close>.\<close>

fun valid_value :: "jsnum \<Rightarrow> real option" where
  "valid_value (Num x) = (if - 1 \<le> x \<and> x \<le> 1 then Some x else None)"
| "valid_value NaN = None"

text \<open>
  \<open>_calculateStatistics\<close>. \<open>Math.min(...validValues)\<close> passes every value as an
  argument of its own, and the engine throws a \<open>RangeError\<close> when there are more of
  them than it accepts; \<open>max_args\<close> is that bound. \<open>Math.pow(y, 2)\<close> is taken as the
  rounded square and \<open>Math.sqrt\<close> as the rounded root.
\<close>

definition calculateStatistics :: "nat \<Rightarrow> jsnum list \<Rightarrow> error + statistics" where
  "calculateStatistics max_args ndviData =
     (case List.map_filter valid_value ndviData of
        [] \<Rightarrow> Inr \<lparr>average = 0, min_ndvi = 0, max_ndvi = 0, std = 0,
                   validPixels = None, totalPixels = None\<rparr>
      | v # vs \<Rightarrow>
          (let validValues = v # vs;
               n = real (length validValues);
               sum = foldl (\<lambda>acc val. js_plus acc val) 0 validValues;
               avg = js_divide sum n
           in if length validValues > max_args then Inl RangeError
              else
                (let mn = foldl min v vs;
                     mx = foldl max v vs;
                     variance =
                       js_divide
                         (foldl (\<lambda>acc val. js_plus acc
                                    (js_times (js_minus val avg) (js_minus val avg)))
                            0 validValues) n;
                     sd = binary64 (sqrt variance)
                 in Inr \<lparr>average = parseFloat_toFixed 4 avg,
                          min_ndvi = parseFloat_toFixed 4 mn,
                          max_ndvi = parseFloat_toFixed 4 mx,
                          std = parseFloat_toFixed 4 sd,
                          validPixels = Some (length validValues),
                          totalPixels = Some (length ndviData)\<rparr>)))"

record zone_entry =
  count :: nat
  percentage :: jsnum

record zones =
  water :: zone_entry
  bare_soil :: zone_entry
  sparse_vegetation :: zone_entry
  moderate_vegetation :: zone_entry
  dense_vegetation :: zone_entry

definition bump :: "zone_entry \<Rightarrow> zone_entry" where
  "bump z = z\<lparr>count := count z + 1\<rparr>"

text \<open>The body of the \<open>forEach\<close> that counts the pixels of each zone.\<close>

definition count_pixel :: "thresholds \<Rightarrow> zones \<Rightarrow> jsnum \<Rightarrow> zones" where
  "count_pixel th z ndvi =
     (if js_lt ndvi 0 then z\<lparr>water := bump (water z)\<rparr>
      else if js_lt ndvi (low th) then z\<lparr>bare_soil := bump (bare_soil z)\<rparr>
      else if js_lt ndvi (normal th) then z\<lparr>sparse_vegetation := bump (sparse_vegetation z)\<rparr>
      else if js_lt ndvi (high th) then z\<lparr>moderate_vegetation := bump (moderate_vegetation z)\<rparr>
      else z\<lparr>dense_vegetation := bump (dense_vegetation z)\<rparr>)"

definition zone0 :: zone_entry where
  "zone0 = \<lparr>count = 0, percentage = Num 0\<rparr>"

definition zones0 :: zones where
  "zones0 = \<lparr>water = zone0, bare_soil = zone0, sparse_vegetation = zone0,
             moderate_vegetation = zone0, dense_vegetation = zone0\<rparr>"

text \<open>\<open>parseFloat((count / totalPixels * 100).toFixed(2))\<close>; \<open>0/0\<close> is \<open>NaN\<close>.\<close>

definition set_percentage :: "nat \<Rightarrow> zone_entry \<Rightarrow> zone_entry" where
  "set_percentage totalPx z =
     z\<lparr>percentage :=
          (if totalPx = 0 then NaN
           else Num (parseFloat_toFixed 2
                       (js_times (js_divide (real (count z)) (real totalPx)) 100)))\<rparr>"

definition identifyVegetationZones :: "thresholds \<Rightarrow> jsnum list \<Rightarrow> zones" where
  "identifyVegetationZones th ndviData =
     (let z = foldl (count_pixel th) zones0 ndviData;
          totalPx = length ndviData
      in \<lparr>water = set_percentage totalPx (water z),
          bare_soil = set_percentage totalPx (bare_soil z),
          sparse_vegetation = set_percentage totalPx (sparse_vegetation z),
          moderate_vegetation = set_percentage totalPx (moderate_vegetation z),
          dense_vegetation = set_percentage totalPx (dense_vegetation z)\<rparr>)"

text \<open>
  The severities of alerts. The source writes the strings \<open>high\<close>, \<open>medium\<close>, \<open>low\<close>
  and \<open>info\<close>; \<open>Inherited k\<close> is the member \<open>k\<close> of \<open>Object.prototype\<close>, which a table
  lookup returns for a key such as \<open>constructor\<close>.
\<close>

datatype severity = High | Medium | Low | Info | Inherited string

text \<open>The names under which an object literal finds a member of \<open>Object.prototype\<close>.\<close>

definition object_prototype_members :: "string list" where
  "object_prototype_members =
     [''constructor'', ''__defineGetter__'', ''__defineSetter__'', ''hasOwnProperty'',
      ''__lookupGetter__'', ''__lookupSetter__'', ''isPrototypeOf'', ''propertyIsEnumerable'',
      ''toString'', ''valueOf'', ''__proto__'', ''toLocaleString'']"

text \<open>
  Free text. A template literal with one interpolated number keeps its prefix, the
  number and its suffix; the Portuguese wording is written without accents.
  \<open>Member k\<close> is the member \<open>k\<close> of \<open>Object.prototype\<close> standing where a text is
  expected.
\<close>

datatype jstext = Text string | Interp string jsnum string | Member string

record ndvi_alert =
  type :: string
  severity :: severity
  message :: jstext
  recommendation :: "string option"

definition generateAlerts :: "thresholds \<Rightarrow> statistics \<Rightarrow> zones \<Rightarrow> ndvi_alert list" where
  "generateAlerts th st z =
     (if average st < low th
      then [\<lparr>type = ''LOW_VEGETATION_INDEX'', severity = High,
              message = Interp ''NDVI medio muito baixo ('' (Num (average st))
                ''). Possivel estresse da cultura ou problema de irrigacao.'',
              recommendation =
                Some ''Verificar sistema de irrigacao e estado nutricional das plantas.''\<rparr>]
      else [])
     @ (if std st > binary64 0.2
        then [\<lparr>type = ''HIGH_VARIABILITY'', severity = Medium,
                message = Interp ''Alta variabilidade no NDVI (sigma='' (Num (std st))
                  ''). Possivel desuniformidade na cultura.'',
                recommendation =
                Some ''Investigar areas com baixo NDVI para identificar problemas especificos.''\<rparr>]
        else [])
     @ (if js_gt (percentage (bare_soil z)) 30
        then [\<lparr>type = ''EXCESSIVE_BARE_SOIL'', severity = Medium,
                message = Interp [] (percentage (bare_soil z)) ''% da area com solo exposto.'',
                recommendation =
                Some ''Avaliar cobertura vegetal e considerar replantio em areas descobertas.''\<rparr>]
        else [])
     @ (if average st > high th
        then [\<lparr>type = ''HEALTHY_VEGETATION'', severity = Info,
                message = Interp ''Excelente indice de vegetacao (NDVI='' (Num (average st)) '').'',
                recommendation = Some ''Manter praticas atuais de manejo.''\<rparr>]
        else [])"

text \<open>
  \<open>Math.round((value + 1) * 127.5)\<close>: the sum and the product are rounded to doubles,
  and \<open>Math.round\<close> takes the nearest integer, half-way cases going up.
\<close>

fun normalize_value :: "jsnum \<Rightarrow> jsnum" where
  "normalize_value (Num v) = Num (of_int \<lfloor>js_times (js_plus v 1) 127.5 + 1 / 2\<rfloor>)"
| "normalize_value NaN = NaN"

definition normalizeNDVIData :: "jsnum list \<Rightarrow> jsnum list" where
  "normalizeNDVIData ndviData = map normalize_value ndviData"

record ndvi_result =
  timestamp :: nat
  dimensions :: "nat \<times> nat"
  statistics :: statistics
  zones :: zones
  alerts :: "ndvi_alert list"
  ndviData :: "jsnum list"

text \<open>
  \<open>calculateNDVI\<close>. The thresholds are the service's \<open>this.thresholds\<close>; \<open>now\<close> is what
  \<open>new Date()\<close> reads when the result is built. What is thrown is the left summand:
  the \<open>Error\<close> of the dimension test, or what \<open>_calculateStatistics\<close> throws.
\<close>

definition calculateNDVI ::
    "thresholds \<Rightarrow> nat \<Rightarrow> nat \<Rightarrow> raster \<Rightarrow> raster \<Rightarrow> error + ndvi_result" where
  "calculateNDVI th max_args now nirBand redBand =
     (if width nirBand \<noteq> width redBand \<or> height nirBand \<noteq> height redBand
      then Inl DimensionMismatch
      else
        (let nd = computeNDVIPixels (data nirBand) (data redBand)
         in case calculateStatistics max_args nd of
              Inl e \<Rightarrow> Inl e
            | Inr st \<Rightarrow>
                (let zs = identifyVegetationZones th nd;
                     al = generateAlerts th st zs
                 in Inr \<lparr>timestamp = now,
                         dimensions = (width nirBand, height nirBand),
                         statistics = st, zones = zs, alerts = al,
                         ndviData = normalizeNDVIData nd\<rparr>)))"

section \<open>FarmAlertService\<close>

text \<open>
  The farm as the alert service reads it (\<open>id\<close> and \<open>name\<close> are \<open>farm_id\<close> and
  \<open>farm_name\<close> here). A missing or empty \<open>ownerPhone\<close> is falsy; \<open>technicalContacts\<close>
  holds the contacts' phones, empty when the field is absent.
\<close>

record farm_info =
  farm_id :: string
  farm_name :: string
  cropType :: string
  ownerPhone :: "string option"
  technicalContacts :: "string list"

definition truthy :: "string option \<Rightarrow> bool" where
  "truthy s = (case s of None \<Rightarrow> False | Some t \<Rightarrow> t \<noteq> [])"

text \<open>
  An alert of the service: the fields of the index alert, and the farm, a title and
  the source. The \<open>data\<close> and \<open>timestamp\<close> fields of the source's object, which no
  decision reads, are left out.
\<close>

record farm_alert = ndvi_alert +
  farmId :: string
  title :: jstext
  source :: string

text \<open>What the vision provider returns, as far as the service reads it.\<close>

record finding =
  finding_type :: "string option"
  description :: string
  finding_severity :: "string option"

record recommendation_entry =
  action :: "string option"
  rec_description :: "string option"

record claude_analysis =
  findings :: "finding list option"
  recommendations :: "recommendation_entry list"
  overallRisk :: "string option"
  summary :: "string option"

text \<open>
  \<open>_generateAlertTitle\<close>: \<open>titles[alertType] || fallback\<close>. The lookup in the
  object literal also finds the members of \<open>Object.prototype\<close>, all of them truthy.
\<close>

definition generateAlertTitle :: "string \<Rightarrow> string \<Rightarrow> jstext" where
  "generateAlertTitle alertType crop =
     (if alertType = ''LOW_VEGETATION_INDEX'' then Text (''Baixo Vigor Vegetativo - '' @ crop)
      else if alertType = ''HIGH_VARIABILITY'' then Text ''Desuniformidade na Cultura''
      else if alertType = ''EXCESSIVE_BARE_SOIL'' then Text ''Solo Exposto Detectado''
      else if alertType = ''VEGETATION_STRESS'' then Text ''Estresse Vegetal Identificado''
      else if alertType = ''IRRIGATION_NEEDED'' then Text ''Necessidade de Irrigacao''
      else if alertType = ''PEST_DISEASE_RISK'' then Text ''Risco de Pragas/Doencas''
      else if alertType = ''HEALTHY_VEGETATION'' then Text ''Cultura Saudavel''
      else if alertType \<in> set object_prototype_members then Member alertType
      else Text (''Alerta - '' @ alertType))"

text \<open>\<open>_processNDVIAlerts\<close>; the argument is \<open>ndviAnalysis?.alerts\<close>.\<close>

definition processNDVIAlerts :: "ndvi_alert list option \<Rightarrow> farm_info \<Rightarrow> farm_alert list" where
  "processNDVIAlerts ndviAlerts farmInfo =
     (case ndviAlerts of
        None \<Rightarrow> []
      | Some als \<Rightarrow>
          map (\<lambda>ndviAlert.
                \<lparr>type = type ndviAlert, severity = severity ndviAlert,
                 message = message ndviAlert, recommendation = recommendation ndviAlert,
                 farmId = farm_id farmInfo,
                 title = generateAlertTitle (type ndviAlert) (cropType farmInfo),
                 source = ''ndvi_analysis''\<rparr>) als)"

text \<open>
  \<open>_mapClaudeSeverity\<close>: \<open>mapping[claudeSeverity] || 'medium'\<close>. The table's own
  entries, then the members of \<open>Object.prototype\<close> the lookup inherits, and \<open>medium\<close>
  for anything else (an absent severity is looked up as \<open>undefined\<close>).
\<close>

definition mapClaudeSeverity :: "string option \<Rightarrow> severity" where
  "mapClaudeSeverity claudeSeverity =
     (if claudeSeverity = Some ''critical'' then High
      else if claudeSeverity = Some ''high'' then High
      else if claudeSeverity = Some ''medium'' then Medium
      else if claudeSeverity = Some ''low'' then Low
      else if claudeSeverity = Some ''info'' then Info
      else case claudeSeverity of
             None \<Rightarrow> Medium
           | Some k \<Rightarrow> if k \<in> set object_prototype_members then Inherited k else Medium)"

text \<open>
  \<open>String.prototype.includes\<close>. \<open>String.prototype.toLowerCase\<close>, which follows the
  Unicode case mapping, is the parameter \<open>lc\<close> of the definitions below.
\<close>

fun js_includes :: "string \<Rightarrow> string \<Rightarrow> bool" where
  "js_includes [] sub = (sub = [])"
| "js_includes (c # cs) sub = (take (length sub) (c # cs) = sub \<or> js_includes cs sub)"

text \<open>
  \<open>_extractRecommendationForFinding\<close>. An absent finding type is searched for as the
  text \<open>undefined\<close>; an absent or empty description is falsy.
\<close>

definition mentions :: "(string \<Rightarrow> string) \<Rightarrow> string option \<Rightarrow> string option \<Rightarrow> bool" where
  "mentions lc field findingType =
     (case field of
        None \<Rightarrow> False
      | Some t \<Rightarrow>
          js_includes (lc t) (case findingType of None \<Rightarrow> ''undefined'' | Some ft \<Rightarrow> lc ft))"

definition or_else :: "string option \<Rightarrow> string option \<Rightarrow> string option" where
  "or_else a b = (if truthy a then a else b)"

definition extractRecommendationForFinding ::
    "(string \<Rightarrow> string) \<Rightarrow> string option \<Rightarrow> recommendation_entry list \<Rightarrow> string option" where
  "extractRecommendationForFinding lc findingType recs =
     (case recs of
        [] \<Rightarrow> None
      | r0 # _ \<Rightarrow>
          (let related = find (\<lambda>r. mentions lc (action r) findingType
                                  \<or> mentions lc (rec_description r) findingType) recs;
               fallback = (if truthy (rec_description r0) then rec_description r0 else None)
           in case related of
                None \<Rightarrow> fallback
              | Some r \<Rightarrow> or_else (rec_description r) fallback))"

text \<open>\<open>_processClaudeAlerts\<close>; \<open>None\<close> is an analysis without \<open>analysis\<close> object.\<close>

definition finding_alert ::
    "(string \<Rightarrow> string) \<Rightarrow> claude_analysis \<Rightarrow> farm_info \<Rightarrow> finding \<Rightarrow> farm_alert" where
  "finding_alert lc an farmInfo f =
     \<lparr>type = (if truthy (finding_type f) then the (finding_type f) else ''GENERAL_OBSERVATION''),
      severity = mapClaudeSeverity (finding_severity f),
      message = Text (description f),
      recommendation = extractRecommendationForFinding lc (finding_type f) (recommendations an),
      farmId = farm_id farmInfo,
      title = Text (''Observacao IA: ''
                @ (if truthy (finding_type f) then the (finding_type f) else ''Analise Geral'')),
      source = ''claude_vision''\<rparr>"

definition processClaudeAlerts ::
    "(string \<Rightarrow> string) \<Rightarrow> claude_analysis option \<Rightarrow> farm_info \<Rightarrow> farm_alert list" where
  "processClaudeAlerts lc claudeAnalysis farmInfo =
     (case claudeAnalysis of
        None \<Rightarrow> []
      | Some an \<Rightarrow>
          (case findings an of
             None \<Rightarrow> []
           | Some fs \<Rightarrow>
               map (finding_alert lc an farmInfo) fs
               @ (if overallRisk an = Some ''high''
                  then [\<lparr>type = ''HIGH_RISK_IDENTIFIED'', severity = High,
                          message = Text (if truthy (summary an) then the (summary an)
                            else ''A analise de IA identificou condicoes de alto risco na fazenda.''),
                          recommendation = Some
                            ''Acao imediata recomendada. Consulte as recomendacoes especificas.'',
                          farmId = farm_id farmInfo,
                          title = Text ''Alto Risco Identificado pela IA'',
                          source = ''claude_vision''\<rparr>]
                  else [])))"

text \<open>
  The key of \<open>_removeDuplicateAlerts\<close>: the template \<open>type-severity\<close>. An inherited
  member is written out as the engine prints it: the prototype object, or a native
  function under its name.
\<close>

definition member_text :: "string \<Rightarrow> string" where
  "member_text k =
     (if k = ''__proto__'' then ''[object Object]''
      else ''function '' @ (if k = ''constructor'' then ''Object'' else k)
           @ ''() { [native code] }'')"

fun severity_str :: "severity \<Rightarrow> string" where
  "severity_str High = ''high''"
| "severity_str Medium = ''medium''"
| "severity_str Low = ''low''"
| "severity_str Info = ''info''"
| "severity_str (Inherited k) = member_text k"

definition alert_key :: "farm_alert \<Rightarrow> string" where
  "alert_key alert = type alert @ ''-'' @ severity_str (severity alert)"

text \<open>The filter of \<open>_removeDuplicateAlerts\<close>, with the keys seen so far.\<close>

fun remove_seen :: "string list \<Rightarrow> farm_alert list \<Rightarrow> farm_alert list" where
  "remove_seen seen [] = []"
| "remove_seen seen (alert # rest) =
     (if alert_key alert \<in> set seen then remove_seen seen rest
      else alert # remove_seen (alert_key alert # seen) rest)"

definition removeDuplicateAlerts :: "farm_alert list \<Rightarrow> farm_alert list" where
  "removeDuplicateAlerts alertList = remove_seen [] alertList"

text \<open>
  \<open>priorityOrder[severity]\<close>: the rank of the four severities, and \<open>undefined\<close> (in
  arithmetic, \<open>NaN\<close>) for anything else.
\<close>

fun priorityOrder :: "severity \<Rightarrow> jsnum" where
  "priorityOrder High = Num 3"
| "priorityOrder Medium = Num 2"
| "priorityOrder Low = Num 1"
| "priorityOrder Info = Num 0"
| "priorityOrder (Inherited k) = NaN"

text \<open>The comparator \<open>priorityOrder[b.severity] - priorityOrder[a.severity]\<close>.\<close>

definition compare_priority :: "farm_alert \<Rightarrow> farm_alert \<Rightarrow> jsnum" where
  "compare_priority a b =
     (case (priorityOrder (severity b), priorityOrder (severity a)) of
        (Num x, Num y) \<Rightarrow> Num (js_minus x y)
      | _ \<Rightarrow> NaN)"

subsection \<open>Array.prototype.sort\<close>

text \<open>
  The sort of the V8 engine for an array of fewer than 64 elements: the run at the
  start of the array is found (and reversed when it is strictly descending), and
  every later element is put into the sorted part by binary insertion. A
  comparator result that is \<open>NaN\<close> counts as \<open>0\<close>. Longer arrays are cut into
  several runs that are merged; with a consistent comparator the result is the
  same stable sort.
\<close>

definition compare_order :: "('a \<Rightarrow> 'a \<Rightarrow> jsnum) \<Rightarrow> 'a \<Rightarrow> 'a \<Rightarrow> real" where
  "compare_order cmp x y = (case cmp x y of Num v \<Rightarrow> v | NaN \<Rightarrow> 0)"

fun take_run :: "bool \<Rightarrow> ('a \<Rightarrow> 'a \<Rightarrow> real) \<Rightarrow> 'a \<Rightarrow> 'a list \<Rightarrow> 'a list \<times> 'a list" where
  "take_run descending ord previous [] = ([], [])"
| "take_run descending ord previous (x # xs) =
     (if (if descending then ord x previous < 0 else ord x previous \<ge> 0)
      then (let r = take_run descending ord x xs in (x # fst r, snd r))
      else ([], x # xs))"

fun count_and_make_run :: "('a \<Rightarrow> 'a \<Rightarrow> real) \<Rightarrow> 'a list \<Rightarrow> 'a list \<times> 'a list" where
  "count_and_make_run ord [] = ([], [])"
| "count_and_make_run ord [x] = ([x], [])"
| "count_and_make_run ord (x0 # x1 # xs) =
     (let descending = ord x1 x0 < 0;
          r = take_run descending ord x1 xs;
          run = x0 # x1 # fst r
      in (if descending then rev run else run, snd r))"

function bin_pos :: "('a \<Rightarrow> 'a \<Rightarrow> real) \<Rightarrow> 'a \<Rightarrow> 'a list \<Rightarrow> nat \<Rightarrow> nat \<Rightarrow> nat" where
  "bin_pos ord pivot xs left right =
     (if left < right
      then (let mid = left + (right - left) div 2
            in if ord pivot (xs ! mid) < 0 then bin_pos ord pivot xs left mid
               else bin_pos ord pivot xs (mid + 1) right)
      else left)"
  by pat_completeness auto
termination
  by (relation "measure (\<lambda>(ord, pivot, xs, left, right). right - left)") auto

declare bin_pos.simps [simp del]

definition binary_insert :: "('a \<Rightarrow> 'a \<Rightarrow> real) \<Rightarrow> 'a list \<Rightarrow> 'a \<Rightarrow> 'a list" where
  "binary_insert ord work pivot =
     (let p = bin_pos ord pivot work 0 (length work)
      in take p work @ pivot # drop p work)"

definition v8_sort :: "('a \<Rightarrow> 'a \<Rightarrow> jsnum) \<Rightarrow> 'a list \<Rightarrow> 'a list" where
  "v8_sort cmp xs =
     (if length xs < 2 then xs
      else (let r = count_and_make_run (compare_order cmp) xs
            in foldl (binary_insert (compare_order cmp)) (fst r) (snd r)))"

subsection \<open>Prioritising, saving and sending\<close>

text \<open>\<open>_prioritizeAlerts\<close>.\<close>

definition prioritizeAlerts :: "farm_alert list \<Rightarrow> farm_alert list" where
  "prioritizeAlerts alertList = v8_sort compare_priority (removeDuplicateAlerts alertList)"

text \<open>
  \<open>_saveAlerts\<close>: one insert per alert, in order; an insert that throws is logged
  and the alert is skipped. \<open>insert_ok\<close> says which inserts succeed; the row returned
  by the database is taken to be the alert.
\<close>

definition saveAlerts :: "(farm_alert \<Rightarrow> bool) \<Rightarrow> string \<Rightarrow> farm_alert list \<Rightarrow> farm_alert list" where
  "saveAlerts insert_ok fid alertList = filter insert_ok alertList"

text \<open>
  WhatsApp messages, by their parts: the header icon, the farm's name, the date,
  the crop, one block per alert shown (icon, title, message, recommendation) and
  the count of further alerts; or the positive update built from one alert.
\<close>

datatype wa_message =
  AlertMessage string string nat string "(string \<times> jstext \<times> jstext \<times> string option) list"
    "nat option"
| PositiveUpdate string string jstext "string option"

fun getAlertIcon :: "severity \<Rightarrow> string" where
  "getAlertIcon High = ''siren''"
| "getAlertIcon Medium = ''warning''"
| "getAlertIcon Low = ''bolt''"
| "getAlertIcon Info = ''information''"
| "getAlertIcon (Inherited k) = ''information''"

definition buildWhatsAppMessage :: "nat \<Rightarrow> farm_info \<Rightarrow> farm_alert list \<Rightarrow> wa_message" where
  "buildWhatsAppMessage now farmInfo alertList =
     AlertMessage
       (if \<exists>a \<in> set alertList. severity a = High then ''siren'' else ''warning'')
       (farm_name farmInfo) now (cropType farmInfo)
       (map (\<lambda>alert. (getAlertIcon (severity alert), title alert, message alert,
                       (if truthy (recommendation alert) then recommendation alert else None)))
          (take 3 alertList))
       (if length alertList > 3 then Some (length alertList - 3) else None)"

text \<open>
  \<open>sendMessage\<close> to each phone in turn. A send that throws ends the enclosing \<open>try\<close>,
  so no later phone is tried; \<open>send_ok\<close> says which sends succeed. The result lists
  the sends attempted.
\<close>

fun send_each :: "(string \<Rightarrow> bool) \<Rightarrow> wa_message \<Rightarrow> string list \<Rightarrow> (string \<times> wa_message) list" where
  "send_each send_ok msg [] = []"
| "send_each send_ok msg (p # ps) =
     (p, msg) # (if send_ok p then send_each send_ok msg ps else [])"

definition sendPositiveUpdate ::
    "(string \<Rightarrow> bool) \<Rightarrow> farm_info \<Rightarrow> farm_alert list \<Rightarrow> (string \<times> wa_message) list" where
  "sendPositiveUpdate send_ok farmInfo alertList =
     (case filter (\<lambda>a. type a = ''HEALTHY_CROP'') alertList of
        [] \<Rightarrow> []
      | h # _ \<Rightarrow>
          (if truthy (ownerPhone farmInfo)
           then send_each send_ok
                  (PositiveUpdate (farm_name farmInfo) (cropType farmInfo) (message h)
                     (recommendation h))
                  [the (ownerPhone farmInfo)]
           else []))"

definition sendWhatsAppAlerts ::
    "(string \<Rightarrow> bool) \<Rightarrow> nat \<Rightarrow> farm_info \<Rightarrow> farm_alert list \<Rightarrow> (string \<times> wa_message) list" where
  "sendWhatsAppAlerts send_ok now farmInfo alertList =
     (let urgentAlerts = filter (\<lambda>alert. severity alert = High \<and> type alert \<noteq> ''HEALTHY_CROP'') alertList
      in if length urgentAlerts = 0 then sendPositiveUpdate send_ok farmInfo alertList
         else send_each send_ok (buildWhatsAppMessage now farmInfo urgentAlerts)
                ((if truthy (ownerPhone farmInfo) then [the (ownerPhone farmInfo)] else [])
                 @ technicalContacts farmInfo))"

text \<open>The alerts in emission order: those of the index, then those of the vision.\<close>

definition combineAlerts ::
    "(string \<Rightarrow> string) \<Rightarrow> farm_info \<Rightarrow> ndvi_alert list option \<Rightarrow> claude_analysis option
     \<Rightarrow> farm_alert list" where
  "combineAlerts lc farmInfo ndviAlerts claudeAnalysis =
     processNDVIAlerts ndviAlerts farmInfo @ processClaudeAlerts lc claudeAnalysis farmInfo"

text \<open>
  \<open>processAnalysisAlerts\<close>: the saved alerts and the messages sent.
  \<open>whatsapp_enabled\<close> is \<open>process.env.ALERT_WHATSAPP_ENABLED === 'true'\<close>.
\<close>

definition processAnalysisAlerts ::
    "(string \<Rightarrow> string) \<Rightarrow> (farm_alert \<Rightarrow> bool) \<Rightarrow> (string \<Rightarrow> bool) \<Rightarrow> bool \<Rightarrow> nat \<Rightarrow> farm_info
     \<Rightarrow> ndvi_alert list option \<Rightarrow> claude_analysis option
     \<Rightarrow> farm_alert list \<times> (string \<times> wa_message) list" where
  "processAnalysisAlerts lc insert_ok send_ok whatsapp_enabled now farmInfo ndviAlerts
       claudeAnalysis =
     (let alertList = combineAlerts lc farmInfo ndviAlerts claudeAnalysis;
          prioritizedAlerts = prioritizeAlerts alertList;
          savedAlerts = saveAlerts insert_ok (farm_id farmInfo) prioritizedAlerts
      in (savedAlerts,
          if whatsapp_enabled then sendWhatsAppAlerts send_ok now farmInfo prioritizedAlerts
          else []))"

text \<open>The deduplication key of the specification: farm, type and severity.\<close>

definition spec_key :: "farm_alert \<Rightarrow> string \<times> string \<times> severity" where
  "spec_key a = (farmId a, type a, severity a)"

text \<open>The severity rank of the specification: high above medium above low above info.\<close>

fun spec_rank :: "severity \<Rightarrow> nat option" where
  "spec_rank High = Some 3"
| "spec_rank Medium = Some 2"
| "spec_rank Low = Some 1"
| "spec_rank Info = Some 0"
| "spec_rank (Inherited k) = None"

text \<open>
  The notification decision in the specification's words: with an alert of
  severity high, the urgent message built from the top three alerts of the
  aggregated list and the count of the remaining ones; else, with a healthy
  vegetation alert, the positive message; else nothing.
\<close>

definition spec_notification :: "nat \<Rightarrow> farm_info \<Rightarrow> farm_alert list \<Rightarrow> wa_message option" where
  "spec_notification now farmInfo alertList =
     (if \<exists>a \<in> set alertList. severity a = High
      then Some (AlertMessage ''siren'' (farm_name farmInfo) now (cropType farmInfo)
                  (map (\<lambda>alert. (getAlertIcon (severity alert), title alert, message alert,
                          (if truthy (recommendation alert) then recommendation alert else None)))
                     (take 3 alertList))
                  (if length alertList > 3 then Some (length alertList - 3) else None))
      else case filter (\<lambda>a. type a = ''HEALTHY_VEGETATION'') alertList of
             [] \<Rightarrow> None
           | h # _ \<Rightarrow> Some (PositiveUpdate (farm_name farmInfo) (cropType farmInfo) (message h)
                              (recommendation h)))"

section \<open>DailyAnalysisJob\<close>

record run_statistics =
  totalFarms :: nat
  successfulAnalyses :: nat
  failedAnalyses :: nat
  alertsGenerated :: nat

text \<open>The job object: \<open>isRunning\<close>, \<open>lastExecution\<close> and \<open>statistics\<close>.\<close>

record job =
  isRunning :: bool
  lastExecution :: "nat option"
  job_statistics :: run_statistics

datatype log_entry = LogInfo string | LogWarn string | LogError string

record report =
  report_date :: nat
  report_statistics :: run_statistics
  successRate :: real

datatype admin_message = AdminReport report | AdminError string

text \<open>
  What the job does to the outside: the log, the farms whose task was launched, the
  pauses between batches (in milliseconds), the rows written to \<open>daily_reports\<close>
  and to \<open>analysis_errors\<close>, and the messages sent to administrators.
\<close>

record world =
  logs :: "log_entry list"
  launched :: "string list"
  delays :: "nat list"
  reports :: "report list"
  error_records :: "(string \<times> string) list"
  admin_sent :: "(string \<times> admin_message) list"

datatype coords = Unparsed string | Parsed "(real \<times> real) list"

record farm_row =
  row_id :: string
  row_name :: string
  coordinates :: coords

text \<open>The outcome of one farm's task, as far as the run's statistics see it.\<close>

datatype farm_outcome = Skipped | Completed nat | Failed string

text \<open>
  The surroundings of one run: the clock, the answer of the farm query (\<open>Inl\<close> when
  the query throws), \<open>JSON.parse\<close> (\<open>None\<close> when it throws), the outcome of each
  farm's task and the time it takes to settle, whether the inserts of the report
  and of an error record succeed, the two environment variables for
  administrators, and which sends succeed.
\<close>

record env =
  clock :: nat
  db_farms :: "string + farm_row list"
  json_parse :: "string \<Rightarrow> (real \<times> real) list option"
  task_outcome :: "farm_row \<Rightarrow> farm_outcome"
  finish_time :: "farm_row \<Rightarrow> nat"
  report_insert_ok :: bool
  error_insert_ok :: "farm_row \<Rightarrow> bool"
  admin_reports_enabled :: bool
  admin_contacts :: "string list"
  admin_send_ok :: "string \<Rightarrow> bool"

definition log_entry_add :: "log_entry \<Rightarrow> world \<Rightarrow> world" where
  "log_entry_add e w = w\<lparr>logs := logs w @ [e]\<rparr>"

text \<open>The \<open>map\<close> of \<open>_getActiveFarms\<close>: coordinates stored as text are parsed.\<close>

fun parse_rows :: "(string \<Rightarrow> (real \<times> real) list option) \<Rightarrow> farm_row list \<Rightarrow> farm_row list option" where
  "parse_rows parse [] = Some []"
| "parse_rows parse (r # rs) =
     (case coordinates r of
        Parsed g \<Rightarrow> map_option ((#) r) (parse_rows parse rs)
      | Unparsed s \<Rightarrow>
          (case parse s of
             None \<Rightarrow> None
           | Some g \<Rightarrow> map_option ((#) (r\<lparr>coordinates := Parsed g\<rparr>)) (parse_rows parse rs)))"

text \<open>\<open>_getActiveFarms\<close>: whatever is thrown inside is logged, and the result is \<open>[]\<close>.\<close>

definition getActiveFarms :: "env \<Rightarrow> world \<Rightarrow> farm_row list \<times> world" where
  "getActiveFarms e w =
     (case db_farms e of
        Inl err \<Rightarrow> ([], log_entry_add (LogError ''Erro ao buscar fazendas ativas'') w)
      | Inr rows \<Rightarrow>
          (case parse_rows (json_parse e) rows of
             None \<Rightarrow> ([], log_entry_add (LogError ''Erro ao buscar fazendas ativas'') w)
           | Some farms \<Rightarrow> (farms, w)))"

text \<open>
  \<open>batch.map(farm => this._analyzeFarmDaily(farm))\<close> launches one task per farm of
  the batch, in the order of the batch.
\<close>

definition launch_batch :: "farm_row list \<Rightarrow> world \<Rightarrow> world" where
  "launch_batch batch w = w\<lparr>launched := launched w @ map row_id batch\<rparr>"

text \<open>
  A task of \<open>_analyzeFarmDaily\<close> settling, seen from the run: its outcome is counted.
  The task catches what it throws, and records the error.
\<close>

definition analyzeFarmDaily :: "env \<Rightarrow> job \<times> world \<Rightarrow> farm_row \<Rightarrow> job \<times> world" where
  "analyzeFarmDaily e s farm =
     (let j = fst s; w = snd s; st = job_statistics j
      in case task_outcome e farm of
           Skipped \<Rightarrow> (j, w)
         | Completed n \<Rightarrow>
             (j\<lparr>job_statistics := st\<lparr>successfulAnalyses := successfulAnalyses st + 1,
                                      alertsGenerated := alertsGenerated st + n\<rparr>\<rparr>, w)
         | Failed msg \<Rightarrow>
             (j\<lparr>job_statistics := st\<lparr>failedAnalyses := failedAnalyses st + 1\<rparr>\<rparr>,
              (let w1 = log_entry_add (LogError ''Erro na analise da fazenda'') w
               in if error_insert_ok e farm
                  then w1\<lparr>error_records := error_records w1 @ [(row_id farm, msg)]\<rparr>
                  else log_entry_add (LogError ''Erro ao salvar erro de analise'') w1)))"

text \<open>
  The loop over the batches of five. The tasks of a batch run concurrently and
  settle in the order of the time each takes (tasks of equal time in the order of
  the batch); \<open>Promise.allSettled\<close> waits for all of them. A pause of 30 seconds
  follows when farms remain.
\<close>

function process_batches :: "env \<Rightarrow> farm_row list \<Rightarrow> job \<times> world \<Rightarrow> job \<times> world" where
  "process_batches e farms s =
     (if farms = [] then s
      else
        (let batch = take 5 farms;
             rest = drop 5 farms;
             s1 = (fst s, launch_batch batch
                            (log_entry_add (LogInfo ''Processando lote'') (snd s)));
             s2 = foldl (analyzeFarmDaily e) s1 (sort_key (finish_time e) batch);
             s3 = (if rest \<noteq> [] then (fst s2, (snd s2)\<lparr>delays := delays (snd s2) @ [30000]\<rparr>)
                   else s2)
         in process_batches e rest s3))"
  by pat_completeness auto
termination
  by (relation "measure (\<lambda>(e, farms, s). length farms)") auto

declare process_batches.simps [simp del]

text \<open>\<open>_sendAdminReport\<close> and \<open>_notifyAdminsError\<close>: a send that throws ends the loop.\<close>

fun admin_send_each ::
    "(string \<Rightarrow> bool) \<Rightarrow> admin_message \<Rightarrow> string list \<Rightarrow> (string \<times> admin_message) list \<times> bool" where
  "admin_send_each ok msg [] = ([], True)"
| "admin_send_each ok msg (c # cs) =
     (if ok c then (let r = admin_send_each ok msg cs in ((c, msg) # fst r, snd r))
      else ([(c, msg)], False))"

definition sendAdminReport :: "env \<Rightarrow> report \<Rightarrow> world \<Rightarrow> world" where
  "sendAdminReport e rep w =
     (if admin_contacts e = [] then w
      else
        (let r = admin_send_each (admin_send_ok e) (AdminReport rep) (admin_contacts e);
             w1 = w\<lparr>admin_sent := admin_sent w @ fst r\<rparr>
         in if snd r then w1 else log_entry_add (LogError ''Erro ao enviar relatorio admin'') w1))"

definition notifyAdminsError :: "env \<Rightarrow> string \<Rightarrow> world \<Rightarrow> world" where
  "notifyAdminsError e err w =
     (if admin_contacts e = [] then w
      else
        (let r = admin_send_each (admin_send_ok e) (AdminError err) (admin_contacts e);
             w1 = w\<lparr>admin_sent := admin_sent w @ fst r\<rparr>
         in if snd r then w1 else log_entry_add (LogError ''Erro ao notificar admins'') w1))"

text \<open>\<open>_generateDailyReport\<close>.\<close>

definition generateDailyReport :: "env \<Rightarrow> job \<times> world \<Rightarrow> job \<times> world" where
  "generateDailyReport e s =
     (let st = job_statistics (fst s);
          rep = \<lparr>report_date = clock e, report_statistics = st,
                 successRate = (if totalFarms st > 0
                    then toFixed 2 (js_times (js_divide (real (successfulAnalyses st))
                                           (real (totalFarms st))) 100)
                    else 0)\<rparr>
      in if report_insert_ok e
         then
           (let w1 = log_entry_add (LogInfo ''Relatorio diario gerado'')
                       ((snd s)\<lparr>reports := reports (snd s) @ [rep]\<rparr>)
            in (fst s, if admin_reports_enabled e then sendAdminReport e rep w1 else w1))
         else (fst s, log_entry_add (LogError ''Erro ao gerar relatorio diario'') (snd s)))"

definition zero_statistics :: run_statistics where
  "zero_statistics = \<lparr>totalFarms = 0, successfulAnalyses = 0, failedAnalyses = 0,
     alertsGenerated = 0\<rparr>"

text \<open>
  \<open>runDailySatelliteAnalysis\<close>. Every function called inside the \<open>try\<close> catches what
  it throws, so the \<open>catch\<close> block, which calls \<open>_notifyAdminsError\<close>, is not reached;
  the \<open>finally\<close> block resets \<open>isRunning\<close> on both ways out.
\<close>

definition runDailySatelliteAnalysis :: "env \<Rightarrow> job \<times> world \<Rightarrow> job \<times> world" where
  "runDailySatelliteAnalysis e s =
     (if isRunning (fst s)
      then (fst s, log_entry_add (LogWarn ''Analise diaria ja esta em execucao, pulando...'') (snd s))
      else
        (let j1 = (fst s)\<lparr>isRunning := True, lastExecution := Some (clock e)\<rparr>;
             w1 = log_entry_add (LogInfo ''Iniciando analise diaria automatica de satelite'') (snd s);
             j2 = j1\<lparr>job_statistics := zero_statistics\<rparr>;
             listed = getActiveFarms e w1;
             farms = fst listed;
             j3 = j2\<lparr>job_statistics := (job_statistics j2)\<lparr>totalFarms := length farms\<rparr>\<rparr>;
             w3 = log_entry_add (LogInfo ''fazendas encontradas para analise'') (snd listed)
         in if length farms = 0
            then (j3\<lparr>isRunning := False\<rparr>,
                  log_entry_add (LogInfo ''Nenhuma fazenda ativa encontrada'') w3)
            else
              (let s4 = process_batches e farms (j3, w3);
                   s5 = generateDailyReport e s4
               in ((fst s5)\<lparr>isRunning := False\<rparr>,
                   log_entry_add (LogInfo ''Analise diaria concluida com sucesso'') (snd s5)))))"

section \<open>Example inputs\<close>

definition nir_example :: raster where
  "nir_example = \<lparr>width = 2, height = 1, data = [200, 0]\<rparr>"

definition red_small :: raster where
  "red_small = \<lparr>width = 1, height = 1, data = [50]\<rparr>"

definition default_thresholds :: thresholds where
  "default_thresholds = \<lparr>low = binary64 0.2, normal = binary64 0.4, high = binary64 0.7\<rparr>"

text \<open>A bound on the number of arguments of a call, of the size met in practice.\<close>

definition max_args_example :: nat where
  "max_args_example = 125000"

text \<open>
  Two images of one pixel: the near-infrared band decoded with four channels (an
  opaque pixel), the red band with three.
\<close>

definition nir_rgba :: raster where
  "nir_rgba = \<lparr>width = 1, height = 1, data = [255, 0, 0, 255]\<rparr>"

definition red_rgb :: raster where
  "red_rgb = \<lparr>width = 1, height = 1, data = [0, 0, 0]\<rparr>"

text \<open>Two images of two pixels and three channels, every sample 67 and 253.\<close>

definition nir_flat :: raster where
  "nir_flat = \<lparr>width = 2, height = 1, data = [67, 67, 67, 67, 67, 67]\<rparr>"

definition red_flat :: raster where
  "red_flat = \<lparr>width = 2, height = 1, data = [253, 253, 253, 253, 253, 253]\<rparr>"

definition stressed_statistics :: statistics where
  "stressed_statistics = \<lparr>average = 0.125, min_ndvi = - 0.25, max_ndvi = 0.75, std = 0.25,
     validPixels = Some 100, totalPixels = Some 100\<rparr>"

definition bare_zones :: zones where
  "bare_zones = \<lparr>water = \<lparr>count = 10, percentage = Num 10\<rparr>,
     bare_soil = \<lparr>count = 60, percentage = Num 60\<rparr>,
     sparse_vegetation = \<lparr>count = 10, percentage = Num 10\<rparr>,
     moderate_vegetation = \<lparr>count = 10, percentage = Num 10\<rparr>,
     dense_vegetation = \<lparr>count = 10, percentage = Num 10\<rparr>\<rparr>"

definition farm_example :: farm_info where
  "farm_example = \<lparr>farm_id = ''farm-1'', farm_name = ''Boa Vista'', cropType = ''soja'',
     ownerPhone = Some ''+5511999990000'', technicalContacts = [''+5511888880000'']\<rparr>"

text \<open>\<open>toLowerCase\<close> on texts of ASCII characters, as all texts of the examples are.\<close>

definition lower_ascii :: "string \<Rightarrow> string" where
  "lower_ascii s =
     map (\<lambda>c. if 65 \<le> (of_char c :: nat) \<and> (of_char c :: nat) \<le> 90
               then char_of ((of_char c :: nat) + 32) else c) s"

definition ndvi_alerts_example :: "ndvi_alert list option" where
  "ndvi_alerts_example = Some (generateAlerts default_thresholds stressed_statistics bare_zones)"

definition claude_example :: "claude_analysis option" where
  "claude_example = Some \<lparr>
     findings = Some
       [\<lparr>finding_type = Some ''LOW_VEGETATION_INDEX'', description = ''Vigor baixo no talhao norte'',
          finding_severity = Some ''critical''\<rparr>,
        \<lparr>finding_type = Some ''PEST_DISEASE_RISK'', description = ''Manchas foliares'',
          finding_severity = Some ''low''\<rparr>,
        \<lparr>finding_type = Some ''PEST_DISEASE_RISK'', description = ''Manchas na borda'',
          finding_severity = Some ''low''\<rparr>],
     recommendations = [],
     overallRisk = Some ''high'',
     summary = None\<rparr>"

definition prioritized_example :: "farm_alert list" where
  "prioritized_example =
     prioritizeAlerts (combineAlerts lower_ascii farm_example ndvi_alerts_example claude_example)"

text \<open>
  A vision analysis with three findings, the second of which carries the severity
  \<open>constructor\<close>.
\<close>

definition claude_inherited :: "claude_analysis option" where
  "claude_inherited = Some \<lparr>
     findings = Some
       [\<lparr>finding_type = Some ''WEED_PRESSURE'', description = ''Plantas daninhas na borda'',
          finding_severity = Some ''low''\<rparr>,
        \<lparr>finding_type = Some ''NUTRIENT_DEFICIENCY'', description = ''Folhas amareladas'',
          finding_severity = Some ''constructor''\<rparr>,
        \<lparr>finding_type = Some ''PEST_DISEASE_RISK'', description = ''Manchas foliares'',
          finding_severity = Some ''high''\<rparr>],
     recommendations = [],
     overallRisk = None,
     summary = None\<rparr>"

definition healthy_statistics :: statistics where
  "healthy_statistics = \<lparr>average = 0.75, min_ndvi = 0.5, max_ndvi = 0.875, std = 0.0625,
     validPixels = Some 100, totalPixels = Some 100\<rparr>"

definition green_zones :: zones where
  "green_zones = \<lparr>water = \<lparr>count = 0, percentage = Num 0\<rparr>,
     bare_soil = \<lparr>count = 0, percentage = Num 0\<rparr>,
     sparse_vegetation = \<lparr>count = 0, percentage = Num 0\<rparr>,
     moderate_vegetation = \<lparr>count = 10, percentage = Num 10\<rparr>,
     dense_vegetation = \<lparr>count = 90, percentage = Num 90\<rparr>\<rparr>"

definition six_farms :: "farm_row list" where
  "six_farms = map (\<lambda>n. \<lparr>row_id = n, row_name = n, coordinates = Parsed []\<rparr>)
     [''f1'', ''f2'', ''f3'', ''f4'', ''f5'', ''f6'']"

definition env_example :: env where
  "env_example = \<lparr>clock = 100, db_farms = Inr six_farms, json_parse = (\<lambda>s. Some []),
     task_outcome = (\<lambda>f. if row_id f = ''f3'' then Failed ''vision'' else Completed 1),
     finish_time = (\<lambda>f. if row_id f = ''f1'' then 9 else 4),
     report_insert_ok = True, error_insert_ok = (\<lambda>f. True), admin_reports_enabled = False,
     admin_contacts = [''+5511777770000''], admin_send_ok = (\<lambda>c. True)\<rparr>"

definition failing_env :: env where
  "failing_env = env_example\<lparr>db_farms := Inl ''connection refused''\<rparr>"

definition idle_job :: job where
  "idle_job = \<lparr>isRunning = False, lastExecution = None, job_statistics = zero_statistics\<rparr>"

definition running_job :: job where
  "running_job = \<lparr>isRunning = True, lastExecution = Some 90,
     job_statistics = \<lparr>totalFarms = 6, successfulAnalyses = 2, failedAnalyses = 1,
       alertsGenerated = 2\<rparr>\<rparr>"

definition empty_world :: world where
  "empty_world = \<lparr>logs = [], launched = [], delays = [], reports = [], error_records = [],
     admin_sent = []\<rparr>"

section \<open>Rounding to doubles\<close>

lemma round_even_near:
  assumes "\<bar>q - of_int m\<bar> < 1 / 2"
  shows "round_even q = m"
proof -
  have lo: "of_int \<lfloor>q\<rfloor> \<le> q" and hi: "q < of_int \<lfloor>q\<rfloor> + 1" by linarith+
  from assms have b1: "q - of_int m < 1 / 2" and b2: "- (1 / 2) < q - of_int m"
    unfolding abs_less_iff by linarith+
  have "of_int (m - 1) \<le> q" using b2 by simp
  then have ge: "m - 1 \<le> \<lfloor>q\<rfloor>" by (simp only: le_floor_iff)
  have "q < of_int (m + 1)" using b1 by simp
  then have "\<lfloor>q\<rfloor> < m + 1" by (simp only: floor_less_iff)
  with ge consider "\<lfloor>q\<rfloor> = m" | "\<lfloor>q\<rfloor> = m - 1" by linarith
  then show ?thesis
  proof cases
    case 1
    then show ?thesis using b1 unfolding round_even_def Let_def by simp
  next
    case 2
    have "q - of_int (m - 1) > 1 / 2" using b2 by simp
    then show ?thesis unfolding round_even_def Let_def 2 by simp
  qed
qed

lemma floor_log2:
  assumes "2 powi e \<le> \<bar>x\<bar>" and "\<bar>x\<bar> < 2 powi (e + 1)"
  shows "\<lfloor>log 2 \<bar>x\<bar>\<rfloor> = e"
proof -
  have "(0::real) < 2 powi e" by simp
  with assms(1) have pos: "0 < \<bar>x\<bar>" by linarith
  have p1: "(2::real) powr (of_int e) = 2 powi e" by (simp add: powr_real_of_int')
  have p2: "(2::real) powr (of_int e + 1) = 2 powi (e + 1)"
    using powr_real_of_int' [of "2::real" "e + 1"] by simp
  show ?thesis
    using assms unfolding floor_log_eq_powr_iff [OF pos, of 2 e, simplified] p1 p2 by simp
qed

text \<open>
  The double nearest to \<open>x\<close>, from the binade of \<open>x\<close> and an integer significand
  within half a unit of \<open>x\<close> scaled.
\<close>

lemma binary64_near:
  assumes "- 1022 \<le> e" and "2 powi e \<le> \<bar>x\<bar>" and "\<bar>x\<bar> < 2 powi (e + 1)"
    and "\<bar>x / 2 powi (e - 52) - of_int m\<bar> < 1 / 2"
  shows "binary64 x = of_int m * 2 powi (e - 52)"
proof -
  have "(0::real) < 2 powi e" by simp
  with assms(2) have "0 < \<bar>x\<bar>" by linarith
  then have "x \<noteq> 0" by simp
  moreover have "max \<lfloor>log 2 \<bar>x\<bar>\<rfloor> (- 1022) = e"
    using floor_log2 [OF assms(2,3)] assms(1) by simp
  ultimately show ?thesis
    unfolding binary64_def Let_def by (simp add: round_even_near [OF assms(4)])
qed

lemma round_even_tie:
  assumes "q = of_int f + 1 / 2"
  shows "round_even q = (if even f then f else f + 1)"
proof -
  have "\<lfloor>q\<rfloor> = f" unfolding assms by linarith
  then show ?thesis unfolding round_even_def Let_def using assms by simp
qed

text \<open>The same for an \<open>x\<close> half-way between two doubles: the even significand is taken.\<close>

lemma binary64_tie:
  assumes "- 1022 \<le> e" and "2 powi e \<le> \<bar>x\<bar>" and "\<bar>x\<bar> < 2 powi (e + 1)"
    and "x / 2 powi (e - 52) = of_int f + 1 / 2"
  shows "binary64 x = of_int (if even f then f else f + 1) * 2 powi (e - 52)"
proof -
  have "(0::real) < 2 powi e" by simp
  with assms(2) have "0 < \<bar>x\<bar>" by linarith
  then have "x \<noteq> 0" by simp
  moreover have "max \<lfloor>log 2 \<bar>x\<bar>\<rfloor> (- 1022) = e"
    using floor_log2 [OF assms(2,3)] assms(1) by simp
  ultimately show ?thesis
    unfolding binary64_def Let_def by (simp only: round_even_tie [OF assms(4)] if_False)
qed

lemma binary64_0: "binary64 0 = 0"
  by (simp add: binary64_def)

text \<open>
  General facts on the rounding: it commutes with the sign, it is monotone, and
  its error is at most half a unit in the last place.
\<close>

lemma log2_floor_bounds:
  assumes "0 < (x::real)"
  shows "2 powi \<lfloor>log 2 x\<rfloor> \<le> x" and "x < 2 powi (\<lfloor>log 2 x\<rfloor> + 1)"
proof -
  have p1: "(2::real) powr (of_int \<lfloor>log 2 x\<rfloor>) = 2 powi \<lfloor>log 2 x\<rfloor>"
    by (simp add: powr_real_of_int')
  have p2: "(2::real) powr (of_int \<lfloor>log 2 x\<rfloor> + 1) = 2 powi (\<lfloor>log 2 x\<rfloor> + 1)"
    using powr_real_of_int' [of "2::real" "\<lfloor>log 2 x\<rfloor> + 1"] by simp
  have b: "2 powr (of_int \<lfloor>log 2 x\<rfloor>) \<le> x \<and> x < 2 powr (of_int \<lfloor>log 2 x\<rfloor> + 1)"
    using floor_log_eq_powr_iff [OF assms, of 2 "\<lfloor>log 2 x\<rfloor>"] by simp
  from b show "2 powi \<lfloor>log 2 x\<rfloor> \<le> x" unfolding p1 by simp
  from b show "x < 2 powi (\<lfloor>log 2 x\<rfloor> + 1)" unfolding p2 by simp
qed

lemma round_even_cases: "round_even q = \<lfloor>q\<rfloor> \<or> round_even q = \<lfloor>q\<rfloor> + 1"
  by (simp add: round_even_def Let_def)

lemma round_even_error: "\<bar>of_int (round_even q) - q\<bar> \<le> 1 / 2"
proof -
  have "of_int \<lfloor>q\<rfloor> \<le> q" "q < of_int \<lfloor>q\<rfloor> + 1" by linarith+
  then show ?thesis unfolding round_even_def Let_def by (auto simp: abs_le_iff)
qed

lemma round_even_of_int: "round_even (of_int n) = n"
  by (simp add: round_even_def)

lemma round_even_mono:
  assumes "q \<le> r"
  shows "round_even q \<le> round_even r"
proof -
  have fl: "\<lfloor>q\<rfloor> \<le> \<lfloor>r\<rfloor>" using assms by (rule floor_mono)
  show ?thesis
  proof (cases "\<lfloor>q\<rfloor> = \<lfloor>r\<rfloor>")
    case True
    then show ?thesis using assms unfolding round_even_def Let_def by auto
  next
    case False
    with fl have "\<lfloor>q\<rfloor> + 1 \<le> \<lfloor>r\<rfloor>" by simp
    moreover have "round_even q \<le> \<lfloor>q\<rfloor> + 1" using round_even_cases [of q] by auto
    moreover have "\<lfloor>r\<rfloor> \<le> round_even r" using round_even_cases [of r] by auto
    ultimately show ?thesis by linarith
  qed
qed

lemma round_even_minus: "round_even (- q) = - round_even q"
proof (cases "q = of_int \<lfloor>q\<rfloor>")
  case True
  then obtain n where "q = of_int n" ..
  then have "- q = of_int (- n)" by simp
  then show ?thesis unfolding \<open>q = of_int n\<close> by (simp only: round_even_of_int)
next
  case False
  have lo: "of_int \<lfloor>q\<rfloor> < q" using False by (metis of_int_floor_le order_less_le)
  have hi: "q < of_int \<lfloor>q\<rfloor> + 1" by linarith
  have "of_int (- \<lfloor>q\<rfloor> - 1) \<le> - q" by simp linarith
  moreover have "- q < of_int (- \<lfloor>q\<rfloor> - 1) + 1" using lo by simp
  ultimately have fm: "\<lfloor>- q\<rfloor> = - \<lfloor>q\<rfloor> - 1" by (rule floor_unique)
  show ?thesis
    unfolding round_even_def Let_def fm using lo hi by auto
qed


lemma binary64_minus: "binary64 (- x) = - binary64 x"
  unfolding binary64_def Let_def by (simp add: round_even_minus)

lemma powi_split: "(2::real) powi (e + 1) = 2 powi (e - 52) * 2 ^ 53"
proof -
  have "e + 1 = (e - 52) + 53" by simp
  then have "(2::real) powi (e + 1) = 2 powi ((e - 52) + 53)" by (simp only:)
  also have "\<dots> = 2 powi (e - 52) * 2 powi 53" by (rule power_int_add) simp
  finally show ?thesis by simp
qed

lemma powi_split0: "(2::real) powi e = 2 powi (e - 52) * 2 ^ 52"
proof -
  have "e = (e - 52) + 52" by simp
  then have "(2::real) powi e = 2 powi ((e - 52) + 52)" by (simp only:)
  also have "\<dots> = 2 powi (e - 52) * 2 powi 52" by (rule power_int_add) simp
  finally show ?thesis by simp
qed

lemma binary64_pos_upper:
  assumes "0 < x"
  shows "binary64 x \<le> 2 powi (max \<lfloor>log 2 x\<rfloor> (- 1022) + 1)"
proof -
  define e where "e = max \<lfloor>log 2 x\<rfloor> (- 1022)"
  define u :: real where "u = 2 powi (e - 52)"
  have u: "0 < u" by (simp add: u_def)
  have "x < 2 powi (\<lfloor>log 2 x\<rfloor> + 1)" using assms by (rule log2_floor_bounds)
  also have "\<dots> \<le> 2 powi (e + 1)" by (rule power_int_increasing) (simp_all add: e_def)
  also have "\<dots> = u * 2 ^ 53" unfolding u_def by (rule powi_split)
  finally have "x / u < 2 ^ 53" using u by (simp add: pos_divide_less_eq mult.commute)
  then have "x / u \<le> of_int (2 ^ 53)" by simp
  then have "round_even (x / u) \<le> round_even (of_int (2 ^ 53))" by (rule round_even_mono)
  then have "round_even (x / u) \<le> 2 ^ 53" by (simp only: round_even_of_int)
  then have "(of_int (round_even (x / u)) :: real) \<le> of_int (2 ^ 53)" by (simp only: of_int_le_iff)
  then have "of_int (round_even (x / u)) * u \<le> 2 ^ 53 * u" using u by simp
  moreover have "binary64 x = of_int (round_even (x / u)) * u"
    using assms unfolding binary64_def Let_def u_def e_def by simp
  ultimately show ?thesis
    unfolding e_def [symmetric] powi_split [of e] u_def [symmetric] by (simp add: mult.commute)
qed

lemma binary64_pos_lower:
  assumes "0 < x" and "- 1022 \<le> \<lfloor>log 2 x\<rfloor>"
  shows "2 powi \<lfloor>log 2 x\<rfloor> \<le> binary64 x"
proof -
  define e where "e = \<lfloor>log 2 x\<rfloor>"
  define u :: real where "u = 2 powi (e - 52)"
  have u: "0 < u" by (simp add: u_def)
  have m: "max \<lfloor>log 2 x\<rfloor> (- 1022) = e" using assms(2) by (simp add: e_def)
  have "u * 2 ^ 52 = 2 powi e" unfolding u_def by (rule powi_split0 [symmetric])
  also have "\<dots> \<le> x" unfolding e_def using assms(1) by (rule log2_floor_bounds)
  finally have "2 ^ 52 \<le> x / u" using u by (simp add: pos_le_divide_eq mult.commute)
  then have "of_int (2 ^ 52) \<le> x / u" by simp
  then have "round_even (of_int (2 ^ 52)) \<le> round_even (x / u)" by (rule round_even_mono)
  then have "2 ^ 52 \<le> round_even (x / u)" by (simp only: round_even_of_int)
  then have "(of_int (2 ^ 52) :: real) \<le> of_int (round_even (x / u))" by (simp only: of_int_le_iff)
  then have "2 ^ 52 * u \<le> of_int (round_even (x / u)) * u" using u by simp
  moreover have "binary64 x = of_int (round_even (x / u)) * u"
  proof -
    have mm: "max \<lfloor>log 2 x\<rfloor> (- 1022) = \<lfloor>log 2 x\<rfloor>" using assms(2) by (rule max_absorb1)
    have ax: "\<bar>x\<bar> = x" and nz: "x \<noteq> 0" using assms(1) by simp_all
    show ?thesis unfolding binary64_def Let_def ax mm u_def e_def using nz by (simp only: if_False)
  qed
  ultimately show ?thesis
    unfolding e_def [symmetric] powi_split0 [of e] u_def [symmetric] by (simp add: mult.commute)
qed

lemma binary64_pos_nonneg:
  assumes "0 < x"
  shows "0 \<le> binary64 x"
proof -
  define u :: real where "u = 2 powi (max \<lfloor>log 2 x\<rfloor> (- 1022) - 52)"
  have u: "0 < u" by (simp add: u_def)
  have "of_int 0 \<le> x / u" using assms u by simp
  then have "round_even (of_int 0) \<le> round_even (x / u)" by (rule round_even_mono)
  then have "0 \<le> round_even (x / u)" by (simp only: round_even_of_int)
  then have "0 \<le> of_int (round_even (x / u)) * u" using u by simp
  moreover have "binary64 x = of_int (round_even (x / u)) * u"
    using assms unfolding binary64_def Let_def u_def by simp
  ultimately show ?thesis by simp
qed


lemma binary64_pos_unfold:
  assumes "0 < x"
  shows "binary64 x = of_int (round_even (x / 2 powi (max \<lfloor>log 2 x\<rfloor> (- 1022) - 52)))
                        * 2 powi (max \<lfloor>log 2 x\<rfloor> (- 1022) - 52)"
proof -
  have ax: "\<bar>x\<bar> = x" and nz: "x \<noteq> 0" using assms by simp_all
  show ?thesis unfolding binary64_def Let_def ax using nz by (simp only: if_False)
qed

lemma binary64_mono_pos:
  assumes "0 < x" and "x \<le> y"
  shows "binary64 x \<le> binary64 y"
proof -
  have y: "0 < y" using assms by simp
  have "log 2 x \<le> log 2 y" using assms by simp
  then have fl: "\<lfloor>log 2 x\<rfloor> \<le> \<lfloor>log 2 y\<rfloor>" by (rule floor_mono)
  define ex where "ex = max \<lfloor>log 2 x\<rfloor> (- 1022)"
  define ey where "ey = max \<lfloor>log 2 y\<rfloor> (- 1022)"
  have le: "ex \<le> ey" using fl by (simp add: ex_def ey_def)
  show ?thesis
  proof (cases "ex = ey")
    case True
    define u :: real where "u = 2 powi (ey - 52)"
    have u: "0 < u" by (simp add: u_def)
    have "x / u \<le> y / u" using assms(2) u by (simp add: divide_right_mono)
    then have "round_even (x / u) \<le> round_even (y / u)" by (rule round_even_mono)
    then have "(of_int (round_even (x / u)) :: real) \<le> of_int (round_even (y / u))"
      by (simp only: of_int_le_iff)
    then have "of_int (round_even (x / u)) * u \<le> of_int (round_even (y / u)) * u"
      using u by simp
    then show ?thesis
      unfolding binary64_pos_unfold [OF assms(1)] binary64_pos_unfold [OF y]
        ex_def [symmetric] ey_def [symmetric] True u_def [symmetric] .
  next
    case False
    with le have lt: "ex + 1 \<le> ey" by simp
    have "- 1022 \<le> ex" by (simp add: ex_def)
    with lt have "- 1022 < ey" by simp
    then have n: "ey = \<lfloor>log 2 y\<rfloor>" "- 1022 \<le> \<lfloor>log 2 y\<rfloor>"
      unfolding ey_def by (simp_all add: max_def split: if_splits)
    have "binary64 x \<le> 2 powi (ex + 1)"
      unfolding ex_def using assms(1) by (rule binary64_pos_upper)
    also have "\<dots> \<le> 2 powi ey" using lt by (intro power_int_increasing) simp_all
    also have "\<dots> \<le> binary64 y" unfolding n(1) using y n(2) by (rule binary64_pos_lower)
    finally show ?thesis .
  qed
qed

lemma binary64_nonneg:
  assumes "0 \<le> x"
  shows "0 \<le> binary64 x"
proof (cases "x = 0")
  case True
  then show ?thesis by (simp add: binary64_0)
next
  case False
  with assms have "0 < x" by simp
  then show ?thesis by (rule binary64_pos_nonneg)
qed

lemma binary64_nonpos:
  assumes "x \<le> 0"
  shows "binary64 x \<le> 0"
proof -
  have "0 \<le> binary64 (- x)" using assms by (intro binary64_nonneg) simp
  then show ?thesis by (simp add: binary64_minus)
qed

lemma binary64_mono:
  assumes "x \<le> y"
  shows "binary64 x \<le> binary64 y"
proof -
  consider "0 < x" | "x \<le> 0" "0 \<le> y" | "y < 0" by linarith
  then show ?thesis
  proof cases
    case 1
    then show ?thesis using assms by (rule binary64_mono_pos)
  next
    case 2
    have "binary64 x \<le> 0" using 2(1) by (rule binary64_nonpos)
    also have "0 \<le> binary64 y" using 2(2) by (rule binary64_nonneg)
    finally show ?thesis .
  next
    case 3
    have "binary64 (- y) \<le> binary64 (- x)" using 3 assms by (intro binary64_mono_pos) simp_all
    then show ?thesis by (simp add: binary64_minus)
  qed
qed

lemma binary64_error:
  "\<bar>binary64 x - x\<bar> \<le> \<bar>x\<bar> / 2 ^ 53 + 2 powi (- 1075)"
proof (cases "x = 0")
  case True
  then show ?thesis by (simp add: binary64_0)
next
  case False
  define e where "e = max \<lfloor>log 2 \<bar>x\<bar>\<rfloor> (- 1022)"
  define u :: real where "u = 2 powi (e - 52)"
  have u: "0 < u" by (simp add: u_def)
  have b: "binary64 x = of_int (round_even (x / u)) * u"
    unfolding binary64_def Let_def u_def e_def using False by (simp only: if_False)
  have "binary64 x - x = (of_int (round_even (x / u)) - x / u) * u"
    unfolding b using u by (simp add: algebra_simps)
  then have "\<bar>binary64 x - x\<bar> = \<bar>of_int (round_even (x / u)) - x / u\<bar> * u"
    using u by (simp add: abs_mult)
  also have "\<dots> \<le> 1 / 2 * u"
    using round_even_error [of "x / u"] u by (intro mult_right_mono) simp_all
  finally have h: "\<bar>binary64 x - x\<bar> \<le> u / 2" by simp
  have pos: "0 < \<bar>x\<bar>" using False by simp
  have u2: "u / 2 = 2 powi e / 2 ^ 53"
    unfolding u_def powi_split0 [of e] by simp
  show ?thesis
  proof (cases "- 1022 \<le> \<lfloor>log 2 \<bar>x\<bar>\<rfloor>")
    case True
    then have "e = \<lfloor>log 2 \<bar>x\<bar>\<rfloor>" by (simp add: e_def)
    then have "2 powi e \<le> \<bar>x\<bar>" using log2_floor_bounds(1) [OF pos] by simp
    then have "u / 2 \<le> \<bar>x\<bar> / 2 ^ 53" unfolding u2 by (simp add: divide_right_mono)
    moreover have "(0::real) \<le> 2 powi (- 1075)" by simp
    ultimately show ?thesis using h by linarith
  next
    case False
    then have "e = - 1022" by (simp add: e_def)
    then have "u / 2 = 2 powi (- 1074) / 2" by (simp add: u_def)
    also have "\<dots> = 2 powi (- 1075)"
      using power_int_add [of "2::real" "- 1075" 1] by simp
    finally have "u / 2 = 2 powi (- 1075)" .
    moreover have "0 \<le> \<bar>x\<bar> / 2 ^ 53" by simp
    ultimately show ?thesis using h by linarith
  qed
qed

text \<open>The doubles of the numbers the examples need.\<close>

lemma binary64_1: "binary64 1 = 1"
  using binary64_near [where x = "1" and e = 0 and m = 4503599627370496] by simp

lemma binary64_2: "binary64 2 = 2"
  using binary64_near [where x = "2" and e = 1 and m = 4503599627370496] by simp

lemma binary64_3: "binary64 3 = 3"
  using binary64_near [where x = "3" and e = 1 and m = 6755399441055744] by simp

lemma binary64_50: "binary64 50 = 50"
  using binary64_near [where x = "50" and e = 5 and m = 7036874417766400] by simp

lemma binary64_255: "binary64 255 = 255"
  using binary64_near [where x = "255" and e = 7 and m = 8972014882652160] by simp

lemma binary64_half: "binary64 (1 / 2) = 1 / 2"
  using binary64_near [where x = "1 / 2" and e = "- 1" and m = 4503599627370496] by simp

lemma binary64_255_2: "binary64 (255 / 2) = 255 / 2"
  using binary64_near [where x = "255 / 2" and e = 6 and m = 8972014882652160] by simp

lemma binary64_0_2: "binary64 (1 / 5) = 3602879701896397 / 18014398509481984"
  using binary64_near [where x = "1 / 5" and e = "- 3" and m = 7205759403792794] by simp

lemma binary64_0_4: "binary64 (2 / 5) = 3602879701896397 / 9007199254740992"
  using binary64_near [where x = "2 / 5" and e = "- 2" and m = 7205759403792794] by simp

lemma binary64_0_7: "binary64 (7 / 10) = 3152519739159347 / 4503599627370496"
  using binary64_near [where x = "7 / 10" and e = "- 1" and m = 6305039478318694] by simp

lemma binary64_m1: "binary64 (- 1) = - 1"
  using binary64_near [where x = "- 1" and e = 0 and m = "- 4503599627370496"] by simp

lemma binary64_m2: "binary64 (- 2) = - 2"
  using binary64_near [where x = "- 2" and e = 1 and m = "- 4503599627370496"] by simp

lemma binary64_m3: "binary64 (- 3) = - 3"
  using binary64_near [where x = "- 3" and e = 1 and m = "- 6755399441055744"] by simp
section \<open>Properties of the index computation\<close>

lemma pixels_unequal_buffers:
  "computeNDVIPixels (data nir_rgba) (data red_rgb) = [Num 1, Num 0, Num 0, NaN]"
  by (simp add: computeNDVIPixels_def nir_rgba_def red_rgb_def upt_rec byte_at_def ndvi_pixel_def
    js_divide_def js_plus_def js_minus_def binary64_0 binary64_1)

lemma statistics_unequal_buffers:
  "\<exists>st. calculateStatistics max_args_example [Num 1, Num 0, Num 0, NaN] = Inr st
     \<and> validPixels st = Some 3 \<and> totalPixels st = Some 4"
  by (simp add: calculateStatistics_def List.map_filter_def max_args_example_def Let_def)

lemma zones_unequal_buffers:
  "identifyVegetationZones default_thresholds [Num 1, Num 0, Num 0, NaN]
     = \<lparr>water = \<lparr>count = 0, percentage = Num 0\<rparr>,
        bare_soil = \<lparr>count = 2, percentage = Num 50\<rparr>,
        sparse_vegetation = \<lparr>count = 0, percentage = Num 0\<rparr>,
        moderate_vegetation = \<lparr>count = 0, percentage = Num 0\<rparr>,
        dense_vegetation = \<lparr>count = 2, percentage = Num 50\<rparr>\<rparr>"
  by (simp add: identifyVegetationZones_def count_pixel_def default_thresholds_def zones0_def
     zone0_def bump_def set_percentage_def Let_def parseFloat_toFixed_def toFixed_def
     js_times_def js_divide_def binary64_0 binary64_half binary64_50 binary64_0_2 binary64_0_4
     binary64_0_7)

lemma normalize_unequal_buffers:
  "normalizeNDVIData [Num 1, Num 0, Num 0, NaN] = [Num 255, Num 128, Num 128, NaN]"
  by (simp add: normalizeNDVIData_def js_times_def js_plus_def binary64_1 binary64_2
     binary64_255 binary64_255_2)

lemma result_unequal_buffers:
  "\<exists>st. validPixels st = Some 3 \<and> totalPixels st = Some 4
     \<and> calculateNDVI default_thresholds max_args_example now nir_rgba red_rgb
       = Inr \<lparr>timestamp = now, dimensions = (1, 1), statistics = st,
           zones = \<lparr>water = \<lparr>count = 0, percentage = Num 0\<rparr>,
                    bare_soil = \<lparr>count = 2, percentage = Num 50\<rparr>,
                    sparse_vegetation = \<lparr>count = 0, percentage = Num 0\<rparr>,
                    moderate_vegetation = \<lparr>count = 0, percentage = Num 0\<rparr>,
                    dense_vegetation = \<lparr>count = 2, percentage = Num 50\<rparr>\<rparr>,
           alerts = generateAlerts default_thresholds st
             (identifyVegetationZones default_thresholds [Num 1, Num 0, Num 0, NaN]),
           ndviData = [Num 255, Num 128, Num 128, NaN]\<rparr>"
proof -
  have d: "width nir_rgba = 1" "width red_rgb = 1" "height nir_rgba = 1" "height red_rgb = 1"
    by (simp_all add: nir_rgba_def red_rgb_def)
  from statistics_unequal_buffers obtain st where
    st: "calculateStatistics max_args_example [Num 1, Num 0, Num 0, NaN] = Inr st"
      "validPixels st = Some 3" "totalPixels st = Some 4"
    by blast
  have "calculateNDVI default_thresholds max_args_example now nir_rgba red_rgb
      = Inr \<lparr>timestamp = now, dimensions = (1, 1), statistics = st,
          zones = identifyVegetationZones default_thresholds [Num 1, Num 0, Num 0, NaN],
          alerts = generateAlerts default_thresholds st
            (identifyVegetationZones default_thresholds [Num 1, Num 0, Num 0, NaN]),
          ndviData = [Num 255, Num 128, Num 128, NaN]\<rparr>"
    unfolding calculateNDVI_def Let_def pixels_unequal_buffers st(1) normalize_unequal_buffers
    by (simp add: d)
  then show ?thesis using st(2,3) unfolding zones_unequal_buffers [symmetric] by blast
qed

text \<open>
  C1. Bands of equal width and height need not hold equally many samples. For a
  near-infrared band of one pixel with four channels and a red band of one pixel
  with three, the dimension test passes and the loop runs over the four samples
  of the first buffer: the fourth reads \<open>undefined\<close> from the second, and its index
  is \<open>NaN\<close>, neither finite nor in \<open>[-1, 1]\<close>. \<open>calculateNDVI\<close> returns a result that
  carries this pixel and counts three valid pixels out of four.
\<close>

theorem calculateNDVI_unequal_buffers:
  "width nir_rgba = width red_rgb \<and> height nir_rgba = height red_rgb
   \<and> computeNDVIPixels (data nir_rgba) (data red_rgb) = [Num 1, Num 0, Num 0, NaN]
   \<and> (\<exists>r. calculateNDVI default_thresholds max_args_example 0 nir_rgba red_rgb = Inr r
         \<and> ndviData r = [Num 255, Num 128, Num 128, NaN]
         \<and> validPixels (statistics r) = Some 3
         \<and> totalPixels (statistics r) = Some 4)"
proof -
  have d: "width nir_rgba = width red_rgb" "height nir_rgba = height red_rgb"
    by (simp_all add: nir_rgba_def red_rgb_def)
  from result_unequal_buffers [of 0] obtain r where
    "calculateNDVI default_thresholds max_args_example 0 nir_rgba red_rgb = Inr r"
    "ndviData r = [Num 255, Num 128, Num 128, NaN]"
    "validPixels (statistics r) = Some 3" "totalPixels (statistics r) = Some 4"
    by force
  with d pixels_unequal_buffers show ?thesis by blast
qed

theorem calculateNDVI_unequal_buffers_witness:
  "computeNDVIPixels (data nir_rgba) (data red_rgb) ! 3 = NaN
   \<and> (\<exists>r. calculateNDVI default_thresholds max_args_example 0 nir_rgba red_rgb = Inr r
         \<and> ndviData r ! 3 = NaN)"
proof -
  from calculateNDVI_unequal_buffers obtain r where
    p: "computeNDVIPixels (data nir_rgba) (data red_rgb) = [Num 1, Num 0, Num 0, NaN]"
    and r: "calculateNDVI default_thresholds max_args_example 0 nir_rgba red_rgb = Inr r"
      "ndviData r = [Num 255, Num 128, Num 128, NaN]"
    by blast
  show ?thesis using r(1) by (simp add: p r(2))
qed

text \<open>
  C2. When the two rasters differ in width or in height, \<open>calculateNDVI\<close> fails with
  the dimension error; it returns no result at all.
\<close>

theorem calculateNDVI_dimension_mismatch:
  assumes "width nirBand \<noteq> width redBand \<or> height nirBand \<noteq> height redBand"
  shows "calculateNDVI th max_args now nirBand redBand = Inl DimensionMismatch
    \<and> (\<forall>r. calculateNDVI th max_args now nirBand redBand \<noteq> Inr r)"
  using assms by (simp add: calculateNDVI_def)

theorem calculateNDVI_dimension_mismatch_witness:
  "width nir_example \<noteq> width red_small
   \<and> calculateNDVI default_thresholds max_args_example 0 nir_example red_small
       = Inl DimensionMismatch"
proof -
  have h: "width nir_example \<noteq> width red_small"
    by (simp add: nir_example_def red_small_def)
  then have "width nir_example \<noteq> width red_small \<or> height nir_example \<noteq> height red_small"
    by blast
  from calculateNDVI_dimension_mismatch [OF this, of default_thresholds max_args_example 0] h
  show ?thesis by blast
qed

section \<open>Statistics\<close>

lemma calculateStatistics_no_valid_value:
  assumes "List.map_filter valid_value ndviValues = []"
  shows "calculateStatistics max_args ndviValues
    = Inr \<lparr>average = 0, min_ndvi = 0, max_ndvi = 0, std = 0,
           validPixels = None, totalPixels = None\<rparr>"
  using assms by (simp add: calculateStatistics_def)

lemma map_filter_valid_length:
  "length (List.map_filter valid_value ndviValues) \<le> length ndviValues"
  by (simp add: List.map_filter_def)


lemma calculateStatistics_pixel_counts:
  assumes "calculateStatistics max_args ndviValues = Inr st"
    and "validPixels st = Some v" and "totalPixels st = Some t"
  shows "v \<le> t"
proof (cases "List.map_filter valid_value ndviValues")
  case Nil
  from assms(1,2) show ?thesis by (auto simp: calculateStatistics_no_valid_value [OF Nil])
next
  case (Cons a vs)
  from assms have "v = length (List.map_filter valid_value ndviValues)" "t = length ndviValues"
    by (auto simp: calculateStatistics_def Cons Let_def split: if_splits)
  then show ?thesis by (simp add: map_filter_valid_length)
qed

text \<open>
  The arithmetic of one pixel with the samples 67 and 253, of the sum of six such
  pixels and of their mean, each step rounded to a double.
\<close>

lemma flat_nir: "js_divide 67 255 = 4733194902491345 / 18014398509481984"
  unfolding js_divide_def
  using binary64_near [where x = "67 / 255" and e = "- 2" and m = 4733194902491345] by simp

lemma flat_red: "js_divide 253 255 = 139633664917247 / 140737488355328"
  unfolding js_divide_def
  using binary64_near [where x = "253 / 255" and e = "- 1" and m = 8936554554703808] by simp

lemma flat_denominator: "js_plus (4733194902491345 / 18014398509481984) (139633664917247 / 140737488355328) = 1412894000743685 / 1125899906842624"
  unfolding js_plus_def
  using binary64_near [where x = "(4733194902491345 / 18014398509481984) + (139633664917247 / 140737488355328)" and e = 0 and m = 5651576002974740] by simp

lemma flat_difference: "js_minus (4733194902491345 / 18014398509481984) (139633664917247 / 140737488355328) = - (821244637932267 / 1125899906842624)"
  unfolding js_minus_def
  using binary64_tie [where x = "(4733194902491345 / 18014398509481984) - (139633664917247 / 140737488355328)" and e = "- 1" and f = "- 6569957103458136"] by simp

lemma flat_index: "js_divide (- (821244637932267 / 1125899906842624)) (1412894000743685 / 1125899906842624) = - (2617717283409101 / 4503599627370496)"
  unfolding js_divide_def
  using binary64_near [where x = "(- (821244637932267 / 1125899906842624)) / (1412894000743685 / 1125899906842624)" and e = "- 1" and m = "- 5235434566818202"] by simp

lemma flat_sum1: "js_plus 0 (- (2617717283409101 / 4503599627370496)) = - (2617717283409101 / 4503599627370496)"
  unfolding js_plus_def
  using binary64_near [where x = "0 + (- (2617717283409101 / 4503599627370496))" and e = "- 1" and m = "- 5235434566818202"] by simp

lemma flat_sum2: "js_plus (- (2617717283409101 / 4503599627370496)) (- (2617717283409101 / 4503599627370496)) = - (2617717283409101 / 2251799813685248)"
  unfolding js_plus_def
  using binary64_near [where x = "(- (2617717283409101 / 4503599627370496)) + (- (2617717283409101 / 4503599627370496))" and e = 0 and m = "- 5235434566818202"] by simp

lemma flat_sum3: "js_plus (- (2617717283409101 / 2251799813685248)) (- (2617717283409101 / 4503599627370496)) = - (7853151850227303 / 4503599627370496)"
  unfolding js_plus_def
  using binary64_near [where x = "(- (2617717283409101 / 2251799813685248)) + (- (2617717283409101 / 4503599627370496))" and e = 0 and m = "- 7853151850227303"] by simp

lemma flat_sum4: "js_plus (- (7853151850227303 / 4503599627370496)) (- (2617717283409101 / 4503599627370496)) = - (2617717283409101 / 1125899906842624)"
  unfolding js_plus_def
  using binary64_near [where x = "(- (7853151850227303 / 4503599627370496)) + (- (2617717283409101 / 4503599627370496))" and e = 1 and m = "- 5235434566818202"] by simp

lemma flat_sum5: "js_plus (- (2617717283409101 / 1125899906842624)) (- (2617717283409101 / 4503599627370496)) = - (93 / 32)"
  unfolding js_plus_def
  using binary64_tie [where x = "(- (2617717283409101 / 1125899906842624)) + (- (2617717283409101 / 4503599627370496))" and e = 1 and f = "- 6544293208522753"] by simp

lemma flat_sum6: "js_plus (- (93 / 32)) (- (2617717283409101 / 4503599627370496)) = - (3926575925113651 / 1125899906842624)"
  unfolding js_plus_def
  using binary64_tie [where x = "(- (93 / 32)) + (- (2617717283409101 / 4503599627370496))" and e = 1 and f = "- 7853151850227303"] by simp

lemma flat_mean: "js_divide (- (3926575925113651 / 1125899906842624)) 6 = - (5235434566818201 / 9007199254740992)"
  unfolding js_divide_def
  using binary64_near [where x = "(- (3926575925113651 / 1125899906842624)) / 6" and e = "- 1" and m = "- 5235434566818201"] by simp

lemma flat_mean_parsed: "binary64 (- (1453 / 2500)) = - (5234984206855465 / 9007199254740992)"
  using binary64_near [where x = "- (1453 / 2500)" and e = "- 1" and m = "- 5234984206855465"] by simp

lemma flat_index_parsed: "binary64 (- (5813 / 10000)) = - (5235884926780939 / 9007199254740992)"
  using binary64_near [where x = "- (5813 / 10000)" and e = "- 1" and m = "- 5235884926780939"] by simp

lemma flat_pixel:
  "ndvi_pixel (Num 67) (Num 253) = Num (- (2617717283409101 / 4503599627370496))"
  by (simp add: ndvi_pixel_def flat_nir flat_red flat_denominator flat_difference flat_index)

lemma flat_pixels:
  "computeNDVIPixels (data nir_flat) (data red_flat)
     = [Num (- (2617717283409101 / 4503599627370496)),
        Num (- (2617717283409101 / 4503599627370496)),
        Num (- (2617717283409101 / 4503599627370496)),
        Num (- (2617717283409101 / 4503599627370496)),
        Num (- (2617717283409101 / 4503599627370496)),
        Num (- (2617717283409101 / 4503599627370496))]"
  by (simp add: computeNDVIPixels_def nir_flat_def red_flat_def upt_rec byte_at_def flat_pixel)

lemma flat_statistics:
  "\<exists>st. calculateStatistics max_args_example
           [Num (- (2617717283409101 / 4503599627370496)),
        Num (- (2617717283409101 / 4503599627370496)),
        Num (- (2617717283409101 / 4503599627370496)),
        Num (- (2617717283409101 / 4503599627370496)),
        Num (- (2617717283409101 / 4503599627370496)),
        Num (- (2617717283409101 / 4503599627370496))] = Inr st
     \<and> validPixels st = Some 6
     \<and> average st = - (5234984206855465 / 9007199254740992)
     \<and> min_ndvi st = - (5235884926780939 / 9007199254740992)
     \<and> max_ndvi st = - (5235884926780939 / 9007199254740992)"
  by (simp add: calculateStatistics_def List.map_filter_def max_args_example_def Let_def
     flat_sum1 flat_sum2 flat_sum3 flat_sum4 flat_sum5 flat_sum6 flat_mean
     parseFloat_toFixed_def toFixed_def flat_mean_parsed flat_index_parsed)

text \<open>
  C10. For two bands of six samples, each 67 in the near-infrared band and 253 in
  the red band, every pixel has the same index, the double nearest to \<open>-0.58125\<close>,
  and all six are valid. Their sum is rounded at each addition, and the mean comes
  out one unit in the last place above the pixels' value. \<open>toFixed(4)\<close> then gives
  \<open>-0.5812\<close> for the mean and \<open>-0.5813\<close> for the minimum and the maximum: the
  returned average is greater than the returned maximum.
\<close>

theorem calculateStatistics_average_above_max:
  "\<exists>st. calculateStatistics max_args_example
           (computeNDVIPixels (data nir_flat) (data red_flat)) = Inr st
     \<and> validPixels st = Some 6
     \<and> average st = binary64 (- 0.5812)
     \<and> min_ndvi st = binary64 (- 0.5813)
     \<and> max_ndvi st = binary64 (- 0.5813)
     \<and> max_ndvi st < average st"
proof -
  from flat_statistics obtain st where
    st: "calculateStatistics max_args_example
           [Num (- (2617717283409101 / 4503599627370496)),
        Num (- (2617717283409101 / 4503599627370496)),
        Num (- (2617717283409101 / 4503599627370496)),
        Num (- (2617717283409101 / 4503599627370496)),
        Num (- (2617717283409101 / 4503599627370496)),
        Num (- (2617717283409101 / 4503599627370496))] = Inr st"
      "validPixels st = Some 6"
      "average st = - (5234984206855465 / 9007199254740992)"
      "min_ndvi st = - (5235884926780939 / 9007199254740992)"
      "max_ndvi st = - (5235884926780939 / 9007199254740992)"
    by blast
  have a: "binary64 (- 0.5812) = - (5234984206855465 / 9007199254740992)"
    using flat_mean_parsed by simp
  have b: "binary64 (- 0.5813) = - (5235884926780939 / 9007199254740992)"
    using flat_index_parsed by simp
  show ?thesis
    unfolding flat_pixels a b using st by simp
qed

theorem calculateStatistics_average_above_max_witness:
  "\<exists>st. calculateStatistics max_args_example
           (computeNDVIPixels (data nir_flat) (data red_flat)) = Inr st
     \<and> max_ndvi st < average st"
  using calculateStatistics_average_above_max by blast

section \<open>Vegetation zones\<close>

text \<open>
  C3. \<open>_identifyVegetationZones\<close> counts every pixel, valid or not, and divides by the
  number of all pixels. For the bands of one pixel with four and with three
  channels the result has three valid pixels, two of bare soil and one of dense
  vegetation; the fourth pixel, whose index is \<open>NaN\<close>, fails every comparison and is
  counted as dense vegetation. The histogram holds two pixels of bare soil and two
  of dense vegetation, at 50 percent each, where the counts of the valid pixels
  over their number give 66.67 and 33.33 percent.
\<close>

theorem identifyVegetationZones_counts_invalid_pixel:
  "\<exists>r. calculateNDVI default_thresholds max_args_example 0 nir_rgba red_rgb = Inr r
     \<and> validPixels (statistics r) = Some 3
     \<and> totalPixels (statistics r) = Some 4
     \<and> zones r = \<lparr>water = \<lparr>count = 0, percentage = Num 0\<rparr>,
                    bare_soil = \<lparr>count = 2, percentage = Num 50\<rparr>,
                    sparse_vegetation = \<lparr>count = 0, percentage = Num 0\<rparr>,
                    moderate_vegetation = \<lparr>count = 0, percentage = Num 0\<rparr>,
                    dense_vegetation = \<lparr>count = 2, percentage = Num 50\<rparr>\<rparr>
     \<and> count_pixel default_thresholds zones0 NaN
         = zones0\<lparr>dense_vegetation := \<lparr>count = 1, percentage = Num 0\<rparr>\<rparr>"
proof -
  have n: "count_pixel default_thresholds zones0 NaN
         = zones0\<lparr>dense_vegetation := \<lparr>count = 1, percentage = Num 0\<rparr>\<rparr>"
    by (simp add: count_pixel_def zones0_def zone0_def bump_def)
  from result_unequal_buffers [of 0] n show ?thesis by force
qed

theorem identifyVegetationZones_counts_invalid_pixel_witness:
  "\<exists>r. calculateNDVI default_thresholds max_args_example 0 nir_rgba red_rgb = Inr r
     \<and> validPixels (statistics r) = Some 3
     \<and> count (bare_soil (zones r)) = 2
     \<and> count (dense_vegetation (zones r)) = 2
     \<and> percentage (bare_soil (zones r)) = Num 50
     \<and> percentage (dense_vegetation (zones r)) = Num 50"
proof -
  from identifyVegetationZones_counts_invalid_pixel obtain r where
    r: "calculateNDVI default_thresholds max_args_example 0 nir_rgba red_rgb = Inr r"
      "validPixels (statistics r) = Some 3"
      "zones r = \<lparr>water = \<lparr>count = 0, percentage = Num 0\<rparr>,
                    bare_soil = \<lparr>count = 2, percentage = Num 50\<rparr>,
                    sparse_vegetation = \<lparr>count = 0, percentage = Num 0\<rparr>,
                    moderate_vegetation = \<lparr>count = 0, percentage = Num 0\<rparr>,
                    dense_vegetation = \<lparr>count = 2, percentage = Num 50\<rparr>\<rparr>"
    by blast
  show ?thesis using r(1,2) by (simp add: r(3))
qed

section \<open>Alerts derived from the statistics\<close>

lemma generateAlerts_counts:
  "length (filter (\<lambda>a. type a = ''LOW_VEGETATION_INDEX'') (generateAlerts th st z))
      = (if average st < low th then 1 else 0)"
  "length (filter (\<lambda>a. type a = ''HIGH_VARIABILITY'') (generateAlerts th st z))
      = (if std st > binary64 0.2 then 1 else 0)"
  "length (filter (\<lambda>a. type a = ''EXCESSIVE_BARE_SOIL'') (generateAlerts th st z))
      = (if js_gt (percentage (bare_soil z)) 30 then 1 else 0)"
  "length (filter (\<lambda>a. type a = ''HEALTHY_VEGETATION'') (generateAlerts th st z))
      = (if average st > high th then 1 else 0)"
  by (simp_all add: generateAlerts_def)

lemma Bex_filter_length: "(\<exists>a \<in> set xs. P a) = (0 < length (filter P xs))"
  by (simp add: filter_empty_conv)

text \<open>
  C4. From the statistics and the zone histogram: a mean below \<open>low\<close> yields exactly
  one vegetation-stress alert, of severity high; a standard deviation above \<open>0.2\<close>
  exactly one high-variability alert, of severity medium; a bare-soil percentage
  above \<open>30\<close> exactly one excessive-bare-soil alert, of severity medium; a mean above
  \<open>high\<close> exactly one healthy-vegetation alert, of severity info. Each rule depends
  on its own condition only, no other alert is produced, and when \<open>low < high\<close> the
  stress and the healthy alert never occur together. The literal \<open>0.2\<close> of the source
  is the double nearest to it.
\<close>

theorem generateAlerts_rules:
  "length (filter (\<lambda>a. type a = ''LOW_VEGETATION_INDEX'') (generateAlerts th st z))
      = (if average st < low th then 1 else 0)
   \<and> length (filter (\<lambda>a. type a = ''HIGH_VARIABILITY'') (generateAlerts th st z))
      = (if std st > binary64 0.2 then 1 else 0)
   \<and> length (filter (\<lambda>a. type a = ''EXCESSIVE_BARE_SOIL'') (generateAlerts th st z))
      = (if js_gt (percentage (bare_soil z)) 30 then 1 else 0)
   \<and> length (filter (\<lambda>a. type a = ''HEALTHY_VEGETATION'') (generateAlerts th st z))
      = (if average st > high th then 1 else 0)
   \<and> (\<forall>a \<in> set (generateAlerts th st z).
         (type a = ''LOW_VEGETATION_INDEX'' \<and> severity a = High)
       \<or> (type a = ''HIGH_VARIABILITY'' \<and> severity a = Medium)
       \<or> (type a = ''EXCESSIVE_BARE_SOIL'' \<and> severity a = Medium)
       \<or> (type a = ''HEALTHY_VEGETATION'' \<and> severity a = Info))
   \<and> (low th < high th \<longrightarrow>
         \<not> ((\<exists>a \<in> set (generateAlerts th st z). type a = ''LOW_VEGETATION_INDEX'')
            \<and> (\<exists>a \<in> set (generateAlerts th st z). type a = ''HEALTHY_VEGETATION'')))"
proof (intro conjI impI)
  show "\<forall>a \<in> set (generateAlerts th st z).
         (type a = ''LOW_VEGETATION_INDEX'' \<and> severity a = High)
       \<or> (type a = ''HIGH_VARIABILITY'' \<and> severity a = Medium)
       \<or> (type a = ''EXCESSIVE_BARE_SOIL'' \<and> severity a = Medium)
       \<or> (type a = ''HEALTHY_VEGETATION'' \<and> severity a = Info)"
    by (auto simp add: generateAlerts_def)
next
  assume lh: "low th < high th"
  show "\<not> ((\<exists>a \<in> set (generateAlerts th st z). type a = ''LOW_VEGETATION_INDEX'')
            \<and> (\<exists>a \<in> set (generateAlerts th st z). type a = ''HEALTHY_VEGETATION''))"
    unfolding Bex_filter_length generateAlerts_counts using lh by auto
qed (rule generateAlerts_counts)+

theorem generateAlerts_rules_witness:
  "average stressed_statistics < low default_thresholds
   \<and> low default_thresholds < high default_thresholds
   \<and> length (filter (\<lambda>a. type a = ''LOW_VEGETATION_INDEX'')
         (generateAlerts default_thresholds stressed_statistics bare_zones)) = 1
   \<and> length (filter (\<lambda>a. type a = ''HIGH_VARIABILITY'')
         (generateAlerts default_thresholds stressed_statistics bare_zones)) = 1
   \<and> length (filter (\<lambda>a. type a = ''EXCESSIVE_BARE_SOIL'')
         (generateAlerts default_thresholds stressed_statistics bare_zones)) = 1
   \<and> length (filter (\<lambda>a. type a = ''HEALTHY_VEGETATION'')
         (generateAlerts default_thresholds stressed_statistics bare_zones)) = 0
   \<and> \<not> ((\<exists>a \<in> set (generateAlerts default_thresholds stressed_statistics bare_zones).
            type a = ''LOW_VEGETATION_INDEX'')
        \<and> (\<exists>a \<in> set (generateAlerts default_thresholds stressed_statistics bare_zones).
            type a = ''HEALTHY_VEGETATION''))"
proof -
  have h1: "average stressed_statistics < low default_thresholds"
    by (simp add: stressed_statistics_def default_thresholds_def binary64_0_2)
  have h2: "low default_thresholds < high default_thresholds"
    by (simp add: default_thresholds_def binary64_0_2 binary64_0_7)
  have h3: "std stressed_statistics > binary64 0.2"
    by (simp add: stressed_statistics_def binary64_0_2)
  have h4: "js_gt (percentage (bare_soil bare_zones)) 30" by (simp add: bare_zones_def)
  have h5: "\<not> average stressed_statistics > high default_thresholds"
    by (simp add: stressed_statistics_def default_thresholds_def binary64_0_7)
  note t = generateAlerts_rules [of default_thresholds stressed_statistics bare_zones]
  have c1: "length (filter (\<lambda>a. type a = ''LOW_VEGETATION_INDEX'')
         (generateAlerts default_thresholds stressed_statistics bare_zones)) = 1"
    using t h1 by presburger
  have c2: "length (filter (\<lambda>a. type a = ''HIGH_VARIABILITY'')
         (generateAlerts default_thresholds stressed_statistics bare_zones)) = 1"
    using t h3 by presburger
  have c3: "length (filter (\<lambda>a. type a = ''EXCESSIVE_BARE_SOIL'')
         (generateAlerts default_thresholds stressed_statistics bare_zones)) = 1"
    using t h4 by presburger
  have c4: "length (filter (\<lambda>a. type a = ''HEALTHY_VEGETATION'')
         (generateAlerts default_thresholds stressed_statistics bare_zones)) = 0"
    using t h5 by presburger
  show ?thesis using t h1 h2 c1 c2 c3 c4 by blast
qed


section \<open>Determinism of the index computation\<close>







section \<open>Aggregation of alerts\<close>

lemma combineAlerts_example:
  "map (\<lambda>a. (type a, severity a, source a, message a))
     (combineAlerts lower_ascii farm_example ndvi_alerts_example claude_example)
   = [(''LOW_VEGETATION_INDEX'', High, ''ndvi_analysis'',
        Interp ''NDVI medio muito baixo ('' (Num 0.125)
          ''). Possivel estresse da cultura ou problema de irrigacao.''),
      (''HIGH_VARIABILITY'', Medium, ''ndvi_analysis'',
        Interp ''Alta variabilidade no NDVI (sigma='' (Num 0.25)
          ''). Possivel desuniformidade na cultura.''),
      (''EXCESSIVE_BARE_SOIL'', Medium, ''ndvi_analysis'',
        Interp [] (Num 60) ''% da area com solo exposto.''),
      (''LOW_VEGETATION_INDEX'', High, ''claude_vision'', Text ''Vigor baixo no talhao norte''),
      (''PEST_DISEASE_RISK'', Low, ''claude_vision'', Text ''Manchas foliares''),
      (''PEST_DISEASE_RISK'', Low, ''claude_vision'', Text ''Manchas na borda''),
      (''HIGH_RISK_IDENTIFIED'', High, ''claude_vision'',
        Text ''A analise de IA identificou condicoes de alto risco na fazenda.'')]"
  by (simp add: combineAlerts_def processNDVIAlerts_def processClaudeAlerts_def
      finding_alert_def ndvi_alerts_example_def claude_example_def farm_example_def
      generateAlerts_def default_thresholds_def stressed_statistics_def bare_zones_def
      mapClaudeSeverity_def truthy_def binary64_0_2 binary64_0_7)

lemma prioritizeAlerts_example:
  "map (\<lambda>a. (type a, severity a, source a, message a))
     (prioritizeAlerts (combineAlerts lower_ascii farm_example ndvi_alerts_example claude_example))
   = [(''LOW_VEGETATION_INDEX'', High, ''ndvi_analysis'',
        Interp ''NDVI medio muito baixo ('' (Num 0.125)
          ''). Possivel estresse da cultura ou problema de irrigacao.''),
      (''HIGH_RISK_IDENTIFIED'', High, ''claude_vision'',
        Text ''A analise de IA identificou condicoes de alto risco na fazenda.''),
      (''HIGH_VARIABILITY'', Medium, ''ndvi_analysis'',
        Interp ''Alta variabilidade no NDVI (sigma='' (Num 0.25)
          ''). Possivel desuniformidade na cultura.''),
      (''EXCESSIVE_BARE_SOIL'', Medium, ''ndvi_analysis'',
        Interp [] (Num 60) ''% da area com solo exposto.''),
      (''PEST_DISEASE_RISK'', Low, ''claude_vision'', Text ''Manchas foliares'')]"
  by (simp add: combineAlerts_def processNDVIAlerts_def processClaudeAlerts_def
      finding_alert_def ndvi_alerts_example_def claude_example_def farm_example_def
      generateAlerts_def default_thresholds_def stressed_statistics_def bare_zones_def
      mapClaudeSeverity_def truthy_def prioritizeAlerts_def removeDuplicateAlerts_def
      alert_key_def binary64_0_2 binary64_0_7
      v8_sort_def compare_order_def compare_priority_def binary_insert_def bin_pos.simps
      js_minus_def binary64_0 binary64_1 binary64_2 binary64_3 binary64_m1 binary64_m2 binary64_m3
      Let_def)

lemma combineAlerts_inherited:
  "map (\<lambda>a. (type a, severity a, source a))
     (combineAlerts lower_ascii farm_example None claude_inherited)
   = [(''WEED_PRESSURE'', Low, ''claude_vision''),
      (''NUTRIENT_DEFICIENCY'', Inherited ''constructor'', ''claude_vision''),
      (''PEST_DISEASE_RISK'', High, ''claude_vision'')]"
  by (simp add: combineAlerts_def processNDVIAlerts_def processClaudeAlerts_def
      finding_alert_def claude_inherited_def farm_example_def mapClaudeSeverity_def
      object_prototype_members_def truthy_def)

lemma prioritizeAlerts_inherited:
  "map (\<lambda>a. (type a, severity a, source a))
     (prioritizeAlerts (combineAlerts lower_ascii farm_example None claude_inherited))
   = [(''WEED_PRESSURE'', Low, ''claude_vision''),
      (''NUTRIENT_DEFICIENCY'', Inherited ''constructor'', ''claude_vision''),
      (''PEST_DISEASE_RISK'', High, ''claude_vision'')]"
  by (simp add: combineAlerts_def processNDVIAlerts_def processClaudeAlerts_def
      finding_alert_def claude_inherited_def farm_example_def mapClaudeSeverity_def
      object_prototype_members_def truthy_def prioritizeAlerts_def removeDuplicateAlerts_def
      alert_key_def member_text_def v8_sort_def compare_order_def compare_priority_def
      Let_def)

text \<open>
  C6. A vision finding whose severity is the text \<open>constructor\<close> gets as the severity
  of its alert the member \<open>constructor\<close> of \<open>Object.prototype\<close>, which the table lookup
  of \<open>_mapClaudeSeverity\<close> inherits. \<open>priorityOrder\<close> has no rank for it, so the
  comparator of the sort gives \<open>NaN\<close> whenever this alert is compared, and the sort
  takes \<open>NaN\<close> as \<open>0\<close>. For three findings of severity \<open>low\<close>, \<open>constructor\<close> and
  \<open>high\<close>, in this order, the sort sees one ascending run and leaves the list as
  it is: the alert of severity low stays before the alert of severity high, and
  the alerts saved include one whose severity is none of the four ranked ones.
\<close>

theorem prioritizeAlerts_inherited_severity:
  "map (\<lambda>a. (type a, severity a))
     (combineAlerts lower_ascii farm_example None claude_inherited)
   = [(''WEED_PRESSURE'', Low), (''NUTRIENT_DEFICIENCY'', Inherited ''constructor''),
      (''PEST_DISEASE_RISK'', High)]
   \<and> map (\<lambda>a. (type a, severity a))
       (prioritizeAlerts (combineAlerts lower_ascii farm_example None claude_inherited))
     = [(''WEED_PRESSURE'', Low), (''NUTRIENT_DEFICIENCY'', Inherited ''constructor''),
        (''PEST_DISEASE_RISK'', High)]
   \<and> map (\<lambda>a. spec_rank (severity a))
       (prioritizeAlerts (combineAlerts lower_ascii farm_example None claude_inherited))
     = [Some 1, None, Some 3]
   \<and> map (\<lambda>a. (type a, severity a))
       (fst (processAnalysisAlerts lower_ascii (\<lambda>a. True) (\<lambda>p. True) True 0 farm_example
               None claude_inherited))
     = [(''WEED_PRESSURE'', Low), (''NUTRIENT_DEFICIENCY'', Inherited ''constructor''),
        (''PEST_DISEASE_RISK'', High)]"
proof -
  have p: "map ((\<lambda>t. (fst t, fst (snd t))) \<circ> (\<lambda>a. (type a, severity a, source a))) xs
      = map (\<lambda>a. (type a, severity a)) xs" for xs :: "farm_alert list"
    by simp
  have q: "map ((\<lambda>t. spec_rank (fst (snd t))) \<circ> (\<lambda>a. (type a, severity a, source a))) xs
      = map (\<lambda>a. spec_rank (severity a)) xs" for xs :: "farm_alert list"
    by simp
  have c: "map (\<lambda>a. (type a, severity a))
     (combineAlerts lower_ascii farm_example None claude_inherited)
   = [(''WEED_PRESSURE'', Low), (''NUTRIENT_DEFICIENCY'', Inherited ''constructor''),
      (''PEST_DISEASE_RISK'', High)]"
    using arg_cong [OF combineAlerts_inherited, of "map (\<lambda>t. (fst t, fst (snd t)))"]
    unfolding map_map p by simp
  have s: "map (\<lambda>a. (type a, severity a))
       (prioritizeAlerts (combineAlerts lower_ascii farm_example None claude_inherited))
     = [(''WEED_PRESSURE'', Low), (''NUTRIENT_DEFICIENCY'', Inherited ''constructor''),
        (''PEST_DISEASE_RISK'', High)]"
    using arg_cong [OF prioritizeAlerts_inherited, of "map (\<lambda>t. (fst t, fst (snd t)))"]
    unfolding map_map p by simp
  have r: "map (\<lambda>a. spec_rank (severity a))
       (prioritizeAlerts (combineAlerts lower_ascii farm_example None claude_inherited))
     = [Some 1, None, Some 3]"
    using arg_cong [OF prioritizeAlerts_inherited, of "map (\<lambda>t. spec_rank (fst (snd t)))"]
    unfolding map_map q by simp
  have f: "fst (processAnalysisAlerts lower_ascii (\<lambda>a. True) (\<lambda>p. True) True 0 farm_example
               None claude_inherited)
      = prioritizeAlerts (combineAlerts lower_ascii farm_example None claude_inherited)"
    by (simp add: processAnalysisAlerts_def saveAlerts_def Let_def)
  show ?thesis unfolding f using c s r by blast
qed

theorem prioritizeAlerts_inherited_severity_witness:
  "map severity
     (prioritizeAlerts (combineAlerts lower_ascii farm_example None claude_inherited))
   = [Low, Inherited ''constructor'', High]"
proof -
  from prioritizeAlerts_inherited_severity
  have s: "map (\<lambda>a. (type a, severity a))
       (prioritizeAlerts (combineAlerts lower_ascii farm_example None claude_inherited))
     = [(''WEED_PRESSURE'', Low), (''NUTRIENT_DEFICIENCY'', Inherited ''constructor''),
        (''PEST_DISEASE_RISK'', High)]"
    by blast
  have "map severity
      (prioritizeAlerts (combineAlerts lower_ascii farm_example None claude_inherited))
    = map snd (map (\<lambda>a. (type a, severity a))
        (prioritizeAlerts (combineAlerts lower_ascii farm_example None claude_inherited)))"
    by (simp add: comp_def)
  also have "\<dots> = [Low, Inherited ''constructor'', High]"
    unfolding s by simp
  finally show ?thesis .
qed

section \<open>Notification decision\<close>

lemma prioritized_example_shape:
  "\<exists>a1 a2 a3 a4 a5. prioritized_example = [a1, a2, a3, a4, a5]
     \<and> severity a1 = High \<and> type a1 = ''LOW_VEGETATION_INDEX''
     \<and> severity a2 = High \<and> type a2 = ''HIGH_RISK_IDENTIFIED''
     \<and> severity a3 = Medium \<and> severity a4 = Medium \<and> severity a5 = Low"
  using prioritizeAlerts_example unfolding prioritized_example_def
  by (auto simp: map_eq_Cons_conv)

text \<open>
  The urgent message is built from the alerts of severity high only. For the
  aggregated list of the example (two high, two medium, one low) the decision
  as the specification words it gives a message of three blocks and two remaining
  alerts; the service sends a message of two blocks without a count.
\<close>

theorem notification_counterexample:
  "(\<exists>m. spec_notification 0 farm_example prioritized_example = Some m
        \<and> (\<exists>blocks. m = AlertMessage ''siren'' ''Boa Vista'' 0 ''soja'' blocks (Some 2)
                      \<and> length blocks = 3))
   \<and> (\<exists>blocks. sendWhatsAppAlerts (\<lambda>p. True) 0 farm_example prioritized_example
         = [(''+5511999990000'', AlertMessage ''siren'' ''Boa Vista'' 0 ''soja'' blocks None),
            (''+5511888880000'', AlertMessage ''siren'' ''Boa Vista'' 0 ''soja'' blocks None)]
         \<and> length blocks = 2)"
proof -
  from prioritized_example_shape obtain a1 a2 a3 a4 a5 where
    p: "prioritized_example = [a1, a2, a3, a4, a5]"
    and s: "severity a1 = High" "type a1 = ''LOW_VEGETATION_INDEX''"
      "severity a2 = High" "type a2 = ''HIGH_RISK_IDENTIFIED''"
      "severity a3 = Medium" "severity a4 = Medium" "severity a5 = Low"
    by blast
  show ?thesis
    unfolding p
    by (simp add: spec_notification_def sendWhatsAppAlerts_def buildWhatsAppMessage_def s
        farm_example_def truthy_def Let_def)
qed


text \<open>
  The sends attempted: every phone up to the first whose send fails, that one
  included.
\<close>

lemma send_each_attempts:
  "send_each send_ok msg ps
     = map (\<lambda>p. (p, msg)) (takeWhile send_ok ps @ take 1 (dropWhile send_ok ps))"
  by (induction ps) auto

lemma buildWhatsAppMessage_urgent:
  assumes "urgent \<noteq> []" and "\<forall>a \<in> set urgent. severity a = High"
  shows "buildWhatsAppMessage now farmInfo urgent =
     AlertMessage ''siren'' (farm_name farmInfo) now (cropType farmInfo)
       (map (\<lambda>a. (''siren'', title a, message a,
                  (if truthy (recommendation a) then recommendation a else None)))
          (take 3 urgent))
       (if 3 < length urgent then Some (length urgent - 3) else None)"
proof -
  from assms obtain a where "a \<in> set urgent" "severity a = High"
    by (cases urgent) auto
  then have ex: "\<exists>a \<in> set urgent. severity a = High" by blast
  have blocks: "map (\<lambda>alert. (getAlertIcon (severity alert), title alert, message alert,
                       (if truthy (recommendation alert) then recommendation alert else None)))
          (take 3 urgent)
      = map (\<lambda>a. (''siren'', title a, message a,
                  (if truthy (recommendation a) then recommendation a else None)))
          (take 3 urgent)"
  proof (rule map_cong [OF refl])
    fix x assume "x \<in> set (take 3 urgent)"
    then have "x \<in> set urgent" by (rule in_set_takeD)
    with assms(2) have "severity x = High" by blast
    then show "(getAlertIcon (severity x), title x, message x,
                       (if truthy (recommendation x) then recommendation x else None))
       = (''siren'', title x, message x,
                  (if truthy (recommendation x) then recommendation x else None))"
      by simp
  qed
  show ?thesis unfolding buildWhatsAppMessage_def blocks using ex by simp
qed

text \<open>
  C7 (as amended). For every alert list handed to \<open>sendWhatsAppAlerts\<close>: if some
  alert has severity high and is not of type \<open>HEALTHY_CROP\<close>, the urgent message
  built from the first three such alerts and the count of the remaining such
  alerts is sent to the owner's phone, when set, and then to the technical
  contacts, in this order: to every phone up to and including the first whose
  send fails, and to none after it. Otherwise,
  if an alert of type \<open>HEALTHY_CROP\<close> is present and the owner's phone is set, the
  positive message built from the first such alert is sent to the owner. Otherwise,
  if the owner's phone is not set, or no alert has type \<open>HEALTHY_CROP\<close> or
  \<open>HEALTHY_VEGETATION\<close>, nothing is sent. The service hands the aggregated list to
  this decision when WhatsApp alerts are enabled, and sends nothing when not.
\<close>

theorem sendWhatsAppAlerts_decision:
  "(let urgent = filter (\<lambda>a. severity a = High \<and> type a \<noteq> ''HEALTHY_CROP'') alertList;
        healthy = filter (\<lambda>a. type a = ''HEALTHY_CROP'') alertList;
        recipients = (if truthy (ownerPhone farmInfo) then [the (ownerPhone farmInfo)] else [])
                     @ technicalContacts farmInfo;
        sends = sendWhatsAppAlerts send_ok now farmInfo alertList;
        urgent_message =
          AlertMessage ''siren'' (farm_name farmInfo) now (cropType farmInfo)
            (map (\<lambda>a. (''siren'', title a, message a,
                        (if truthy (recommendation a) then recommendation a else None)))
               (take 3 urgent))
            (if 3 < length urgent then Some (length urgent - 3) else None)
    in (urgent \<noteq> [] \<longrightarrow>
          sends = map (\<lambda>p. (p, urgent_message))
                    (takeWhile send_ok recipients @ take 1 (dropWhile send_ok recipients)))
       \<and> (urgent = [] \<and> healthy \<noteq> [] \<and> truthy (ownerPhone farmInfo) \<longrightarrow>
            sends = [(the (ownerPhone farmInfo),
                      PositiveUpdate (farm_name farmInfo) (cropType farmInfo)
                        (message (hd healthy)) (recommendation (hd healthy)))])
       \<and> (urgent = [] \<and> \<not> truthy (ownerPhone farmInfo) \<longrightarrow> sends = [])
       \<and> (urgent = []
            \<and> (\<forall>a \<in> set alertList. type a \<noteq> ''HEALTHY_CROP'' \<and> type a \<noteq> ''HEALTHY_VEGETATION'')
            \<longrightarrow> sends = []))
   \<and> snd (processAnalysisAlerts lc insert_ok send_ok enabled now farmInfo ndviAlerts
          claudeAnalysis)
       = (if enabled
          then sendWhatsAppAlerts send_ok now farmInfo
                 (prioritizeAlerts (combineAlerts lc farmInfo ndviAlerts claudeAnalysis))
          else [])"
proof -
  define urgent where "urgent = filter (\<lambda>a. severity a = High \<and> type a \<noteq> ''HEALTHY_CROP'') alertList"
  define healthy where "healthy = filter (\<lambda>a. type a = ''HEALTHY_CROP'') alertList"
  define recipients where "recipients =
     (if truthy (ownerPhone farmInfo) then [the (ownerPhone farmInfo)] else [])
     @ technicalContacts farmInfo"
  define sends where "sends = sendWhatsAppAlerts send_ok now farmInfo alertList"
  define urgent_message where "urgent_message =
          AlertMessage ''siren'' (farm_name farmInfo) now (cropType farmInfo)
            (map (\<lambda>a. (''siren'', title a, message a,
                        (if truthy (recommendation a) then recommendation a else None)))
               (take 3 urgent))
            (if 3 < length urgent then Some (length urgent - 3) else None)"
  have high: "\<forall>a \<in> set urgent. severity a = High" by (simp add: urgent_def)
  have a: "urgent \<noteq> [] \<longrightarrow>
          sends = map (\<lambda>p. (p, urgent_message))
                    (takeWhile send_ok recipients @ take 1 (dropWhile send_ok recipients))"
  proof
    assume ne: "urgent \<noteq> []"
    have m: "buildWhatsAppMessage now farmInfo urgent = urgent_message"
      unfolding urgent_message_def by (rule buildWhatsAppMessage_urgent [OF ne high])
    have sd: "sends = send_each send_ok urgent_message recipients"
      using ne unfolding sends_def sendWhatsAppAlerts_def Let_def urgent_def [symmetric] m
        recipients_def by simp
    show "sends = map (\<lambda>p. (p, urgent_message))
                    (takeWhile send_ok recipients @ take 1 (dropWhile send_ok recipients))"
      unfolding sd by (rule send_each_attempts)
  qed
  have pos: "urgent = [] \<Longrightarrow> sends = sendPositiveUpdate send_ok farmInfo alertList"
    unfolding sends_def sendWhatsAppAlerts_def Let_def urgent_def [symmetric] by simp
  have b: "urgent = [] \<and> healthy \<noteq> [] \<and> truthy (ownerPhone farmInfo) \<longrightarrow>
            sends = [(the (ownerPhone farmInfo),
                      PositiveUpdate (farm_name farmInfo) (cropType farmInfo)
                        (message (hd healthy)) (recommendation (hd healthy)))]"
    using pos by (cases healthy) (auto simp: sendPositiveUpdate_def healthy_def [symmetric])
  have c: "urgent = [] \<and> \<not> truthy (ownerPhone farmInfo) \<longrightarrow> sends = []"
    using pos by (auto simp: sendPositiveUpdate_def split: list.splits)
  have d: "urgent = []
            \<and> (\<forall>a \<in> set alertList. type a \<noteq> ''HEALTHY_CROP'' \<and> type a \<noteq> ''HEALTHY_VEGETATION'')
            \<longrightarrow> sends = []"
  proof
    assume h: "urgent = []
            \<and> (\<forall>a \<in> set alertList. type a \<noteq> ''HEALTHY_CROP'' \<and> type a \<noteq> ''HEALTHY_VEGETATION'')"
    then have "filter (\<lambda>a. type a = ''HEALTHY_CROP'') alertList = []"
      by (simp add: filter_empty_conv)
    with h pos show "sends = []" by (simp add: sendPositiveUpdate_def)
  qed
  have e: "snd (processAnalysisAlerts lc insert_ok send_ok enabled now farmInfo ndviAlerts
          claudeAnalysis)
       = (if enabled
          then sendWhatsAppAlerts send_ok now farmInfo
                 (prioritizeAlerts (combineAlerts lc farmInfo ndviAlerts claudeAnalysis))
          else [])"
    by (simp add: processAnalysisAlerts_def Let_def)
  show ?thesis
    unfolding Let_def urgent_def [symmetric] healthy_def [symmetric] recipients_def [symmetric]
      sends_def [symmetric] urgent_message_def [symmetric]
    using a b c d e by blast
qed


theorem sendWhatsAppAlerts_decision_witness:
  "filter (\<lambda>a. severity a = High \<and> type a \<noteq> ''HEALTHY_CROP'') prioritized_example \<noteq> []
   \<and> map fst (sendWhatsAppAlerts (\<lambda>p. True) 0 farm_example prioritized_example)
       = [''+5511999990000'', ''+5511888880000'']
   \<and> map fst (sendWhatsAppAlerts (\<lambda>p. False) 0 farm_example prioritized_example)
       = [''+5511999990000'']
   \<and> sendWhatsAppAlerts (\<lambda>p. True) 0 farm_example [] = []"
proof -
  have ne: "filter (\<lambda>a. severity a = High \<and> type a \<noteq> ''HEALTHY_CROP'') prioritized_example \<noteq> []"
  proof -
    from prioritized_example_shape obtain a1 rest where
      p: "prioritized_example = a1 # rest"
      and s: "severity a1 = High" "type a1 = ''LOW_VEGETATION_INDEX''"
      by blast
    show ?thesis unfolding p by (simp add: s)
  qed
  have rc: "(if truthy (ownerPhone farm_example) then [the (ownerPhone farm_example)] else [])
      @ technicalContacts farm_example = [''+5511999990000'', ''+5511888880000'']"
    by (simp add: farm_example_def truthy_def)
  note t1 = sendWhatsAppAlerts_decision [where alertList = prioritized_example
      and farmInfo = farm_example and send_ok = "\<lambda>p. True" and now = 0, unfolded Let_def rc]
  from t1 ne have s1: "map fst (sendWhatsAppAlerts (\<lambda>p. True) 0 farm_example prioritized_example)
       = [''+5511999990000'', ''+5511888880000'']"
    by (simp add: comp_def)
  note t3 = sendWhatsAppAlerts_decision [where alertList = prioritized_example
      and farmInfo = farm_example and send_ok = "\<lambda>p. False" and now = 0, unfolded Let_def rc]
  from t3 ne have s3: "map fst (sendWhatsAppAlerts (\<lambda>p. False) 0 farm_example prioritized_example)
       = [''+5511999990000'']"
    by (simp add: comp_def)
  note t2 = sendWhatsAppAlerts_decision [where alertList = "[]"
      and farmInfo = farm_example and send_ok = "\<lambda>p. True" and now = 0, unfolded Let_def]
  from t2 have s2: "sendWhatsAppAlerts (\<lambda>p. True) 0 farm_example [] = []"
    by simp
  from ne s1 s2 s3 show ?thesis by blast
qed

text \<open>
  The healthy alert of the index has type \<open>HEALTHY_VEGETATION\<close>; the positive update
  looks for \<open>HEALTHY_CROP\<close>, so that alert alone leads to no message.
\<close>

lemma healthy_vegetation_sends_nothing:
  "map (\<lambda>a. (type a, severity a))
     (prioritizeAlerts (combineAlerts lower_ascii farm_example
        (Some (generateAlerts default_thresholds healthy_statistics green_zones)) None))
     = [(''HEALTHY_VEGETATION'', Info)]
   \<and> sendWhatsAppAlerts (\<lambda>p. True) 0 farm_example
       (prioritizeAlerts (combineAlerts lower_ascii farm_example
          (Some (generateAlerts default_thresholds healthy_statistics green_zones)) None)) = []"
  by (simp add: combineAlerts_def processNDVIAlerts_def processClaudeAlerts_def
      generateAlerts_def default_thresholds_def healthy_statistics_def green_zones_def
      prioritizeAlerts_def removeDuplicateAlerts_def v8_sort_def sendWhatsAppAlerts_def
      sendPositiveUpdate_def binary64_0_2 binary64_0_7 Let_def)

section \<open>The daily run\<close>

text \<open>
  The flag \<open>isRunning\<close>, set when a run starts, stays as it is through the batches
  and the report; only the end of the run resets it.
\<close>

lemma analyzeFarmDaily_isRunning:
  "isRunning (fst (analyzeFarmDaily e s farm)) = isRunning (fst s)"
  by (simp add: analyzeFarmDaily_def Let_def split: farm_outcome.splits)

lemma foldl_analyzeFarmDaily_isRunning:
  "isRunning (fst (foldl (analyzeFarmDaily e) s batch)) = isRunning (fst s)"
  by (induction batch arbitrary: s) (simp_all add: analyzeFarmDaily_isRunning)

lemma process_batches_isRunning:
  "isRunning (fst (process_batches e farms s)) = isRunning (fst s)"
proof (induction e farms s rule: process_batches.induct)
  case (1 e farms s)
  show ?case
  proof (cases "farms = []")
    case True
    have "process_batches e farms s = s"
      by (subst process_batches.simps) (simp only: True simp_thms if_True)
    then show ?thesis by (simp only:)
  next
    case False
    define s1 where "s1 = (fst s, launch_batch (take 5 farms)
        (log_entry_add (LogInfo ''Processando lote'') (snd s)))"
    define s2 where "s2 = foldl (analyzeFarmDaily e) s1 (sort_key (finish_time e) (take 5 farms))"
    define s3 where "s3 = (if drop 5 farms \<noteq> []
        then (fst s2, (snd s2)\<lparr>delays := delays (snd s2) @ [30000]\<rparr>) else s2)"
    have ih: "isRunning (fst (process_batches e (drop 5 farms) s3)) = isRunning (fst s3)"
      unfolding s3_def s2_def s1_def by (rule 1 [OF False refl refl refl refl refl])
    have step: "process_batches e farms s = process_batches e (drop 5 farms) s3"
      by (subst process_batches.simps) (simp only: False if_False Let_def s1_def s2_def s3_def)
    have "isRunning (fst s3) = isRunning (fst s2)" by (simp add: s3_def)
    also have "\<dots> = isRunning (fst s1)"
      unfolding s2_def by (rule foldl_analyzeFarmDaily_isRunning)
    also have "\<dots> = isRunning (fst s)" by (simp add: s1_def)
    finally show ?thesis unfolding step ih .
  qed
qed

lemma generateDailyReport_job: "fst (generateDailyReport e s) = fst s"
  by (simp add: generateDailyReport_def Let_def)

text \<open>
  C8. A call of \<open>runDailySatelliteAnalysis\<close> while \<open>isRunning\<close> is set returns at
  once: it logs one warning and nothing else happens. The job (its state and its
  statistics) is unchanged, no farm task is launched, and the outside world is
  unchanged but for the warning in the log.
\<close>

theorem runDailySatelliteAnalysis_reentrant_noop:
  assumes "isRunning j"
  shows "fst (runDailySatelliteAnalysis e (j, w)) = j
    \<and> job_statistics (fst (runDailySatelliteAnalysis e (j, w))) = job_statistics j
    \<and> isRunning (fst (runDailySatelliteAnalysis e (j, w)))
    \<and> launched (snd (runDailySatelliteAnalysis e (j, w))) = launched w
    \<and> snd (runDailySatelliteAnalysis e (j, w))
        = w\<lparr>logs := logs w @ [LogWarn ''Analise diaria ja esta em execucao, pulando...'']\<rparr>"
  using assms by (simp add: runDailySatelliteAnalysis_def log_entry_add_def)

text \<open>A run from the idle state over six farms, for comparison.\<close>

lemma run_example:
  "launched (snd (runDailySatelliteAnalysis env_example (idle_job, empty_world)))
     = [''f1'', ''f2'', ''f3'', ''f4'', ''f5'', ''f6'']
   \<and> delays (snd (runDailySatelliteAnalysis env_example (idle_job, empty_world))) = [30000]
   \<and> job_statistics (fst (runDailySatelliteAnalysis env_example (idle_job, empty_world)))
     = \<lparr>totalFarms = 6, successfulAnalyses = 5, failedAnalyses = 1, alertsGenerated = 5\<rparr>
   \<and> length (reports (snd (runDailySatelliteAnalysis env_example (idle_job, empty_world)))) = 1"
  by (simp add: runDailySatelliteAnalysis_def env_example_def idle_job_def empty_world_def
      six_farms_def getActiveFarms_def log_entry_add_def process_batches.simps Let_def
      launch_batch_def analyzeFarmDaily_def generateDailyReport_def zero_statistics_def)


theorem runDailySatelliteAnalysis_reentrant_noop_witness:
  "isRunning running_job
   \<and> fst (runDailySatelliteAnalysis env_example (running_job, empty_world)) = running_job
   \<and> launched (snd (runDailySatelliteAnalysis env_example (running_job, empty_world))) = []
   \<and> logs (snd (runDailySatelliteAnalysis env_example (running_job, empty_world)))
       = [LogWarn ''Analise diaria ja esta em execucao, pulando...'']
   \<and> launched (snd (runDailySatelliteAnalysis env_example (idle_job, empty_world)))
       = [''f1'', ''f2'', ''f3'', ''f4'', ''f5'', ''f6'']"
proof -
  have h: "isRunning running_job" by (simp add: running_job_def)
  have e: "launched empty_world = []" "logs empty_world = []" by (simp_all add: empty_world_def)
  note t = runDailySatelliteAnalysis_reentrant_noop [OF h, of env_example empty_world]
  from t have l: "logs (snd (runDailySatelliteAnalysis env_example (running_job, empty_world)))
       = [LogWarn ''Analise diaria ja esta em execucao, pulando...'']"
    by (simp add: e)
  from h t l e run_example show ?thesis by simp
qed

lemma getActiveFarms_failure:
  assumes "db_farms e = Inl err \<or> (\<exists>rows. db_farms e = Inr rows \<and> parse_rows (json_parse e) rows = None)"
  shows "getActiveFarms e w = ([], log_entry_add (LogError ''Erro ao buscar fazendas ativas'') w)"
  using assms by (auto simp: getActiveFarms_def)

text \<open>
  C9 (as amended). When listing the farms fails (the query throws, or the
  coordinates of a row do not parse), the error is logged and the run goes on as
  with an empty list of farms: it launches no farm task, persists no report, sends
  no message to administrators, leaves the statistics at zero and ends with
  \<open>isRunning\<close> reset; the job ends in the same state as after a run whose listing
  returned no farm.
\<close>

theorem runDailySatelliteAnalysis_listing_failure:
  assumes "\<not> isRunning j"
    and "db_farms e = Inl err \<or> (\<exists>rows. db_farms e = Inr rows \<and> parse_rows (json_parse e) rows = None)"
  shows "fst (runDailySatelliteAnalysis e (j, w))
       = j\<lparr>isRunning := False, lastExecution := Some (clock e), job_statistics := zero_statistics\<rparr>
    \<and> snd (runDailySatelliteAnalysis e (j, w))
       = w\<lparr>logs := logs w @
            [LogInfo ''Iniciando analise diaria automatica de satelite'',
             LogError ''Erro ao buscar fazendas ativas'',
             LogInfo ''fazendas encontradas para analise'',
             LogInfo ''Nenhuma fazenda ativa encontrada'']\<rparr>
    \<and> launched (snd (runDailySatelliteAnalysis e (j, w))) = launched w
    \<and> reports (snd (runDailySatelliteAnalysis e (j, w))) = reports w
    \<and> admin_sent (snd (runDailySatelliteAnalysis e (j, w))) = admin_sent w
    \<and> fst (runDailySatelliteAnalysis e (j, w))
       = fst (runDailySatelliteAnalysis (e\<lparr>db_farms := Inr []\<rparr>) (j, w))
    \<and> snd (runDailySatelliteAnalysis (e\<lparr>db_farms := Inr []\<rparr>) (j, w))
       = w\<lparr>logs := logs w @
            [LogInfo ''Iniciando analise diaria automatica de satelite'',
             LogInfo ''fazendas encontradas para analise'',
             LogInfo ''Nenhuma fazenda ativa encontrada'']\<rparr>"
proof -
  have empty: "getActiveFarms (e\<lparr>db_farms := Inr []\<rparr>) w' = ([], w')" for w'
    by (simp add: getActiveFarms_def)
  show ?thesis
    using assms(1)
    by (simp add: runDailySatelliteAnalysis_def Let_def getActiveFarms_failure [OF assms(2)]
        empty log_entry_add_def zero_statistics_def)
qed

text \<open>
  With an administrator contact configured and a farm query that throws, no
  failure notification is sent, and the job ends as after an empty listing.
\<close>

theorem listing_failure_counterexample:
  "db_farms failing_env = Inl ''connection refused''
   \<and> admin_contacts failing_env = [''+5511777770000'']
   \<and> admin_sent (snd (runDailySatelliteAnalysis failing_env (idle_job, empty_world))) = []
   \<and> isRunning (fst (runDailySatelliteAnalysis failing_env (idle_job, empty_world))) = False
   \<and> fst (runDailySatelliteAnalysis failing_env (idle_job, empty_world))
       = fst (runDailySatelliteAnalysis (failing_env\<lparr>db_farms := Inr []\<rparr>) (idle_job, empty_world))
   \<and> logs (snd (runDailySatelliteAnalysis failing_env (idle_job, empty_world)))
       = [LogInfo ''Iniciando analise diaria automatica de satelite'',
          LogError ''Erro ao buscar fazendas ativas'',
          LogInfo ''fazendas encontradas para analise'',
          LogInfo ''Nenhuma fazenda ativa encontrada'']"
  by (simp add: runDailySatelliteAnalysis_def failing_env_def env_example_def idle_job_def
      empty_world_def getActiveFarms_def log_entry_add_def Let_def)

theorem runDailySatelliteAnalysis_listing_failure_witness:
  "\<not> isRunning idle_job
   \<and> db_farms failing_env = Inl ''connection refused''
   \<and> fst (runDailySatelliteAnalysis failing_env (idle_job, empty_world))
       = idle_job\<lparr>isRunning := False, lastExecution := Some (clock failing_env),
           job_statistics := zero_statistics\<rparr>
   \<and> reports (snd (runDailySatelliteAnalysis failing_env (idle_job, empty_world))) = []
   \<and> admin_sent (snd (runDailySatelliteAnalysis failing_env (idle_job, empty_world))) = []
   \<and> launched (snd (runDailySatelliteAnalysis failing_env (idle_job, empty_world))) = []"
proof -
  have h1: "\<not> isRunning idle_job" by (simp add: idle_job_def)
  have h2: "db_farms failing_env = Inl ''connection refused''"
    by (simp add: failing_env_def)
  then have h3: "db_farms failing_env = Inl ''connection refused''
      \<or> (\<exists>rows. db_farms failing_env = Inr rows \<and> parse_rows (json_parse failing_env) rows = None)"
    by (rule disjI1)
  have e: "launched empty_world = []" "reports empty_world = []" "admin_sent empty_world = []"
    by (simp_all add: empty_world_def)
  note t = runDailySatelliteAnalysis_listing_failure [OF h1 h3, of empty_world]
  from t h1 h2 show ?thesis unfolding e by blast
qed

end
